theory Spec2Isabelle
  imports Main
begin

section \<open>Data model\<close>

text \<open>
  The program is a single React component (\<open>App\<close>) whose hooks hold the state of one
  peer. A value of type \<open>T | null\<close> is an \<open>option\<close>.

  Numbers are JavaScript numbers in the source, that is, IEEE doubles. Every number the
  protocol handles is a whole count (Unix seconds, milliseconds, scores, versions) and
  is modelled as an \<open>int\<close>. Comparisons of whole doubles are exact; a sum or a
  difference is the double nearest to the exact result (\<open>jsPlus\<close>, \<open>jsMinus\<close> below),
  which is the exact result as long as that is at most \<open>2 ^ 53\<close> in magnitude. The end
  time of a \<open>start\<close>, the one number that the source tests with \<open>Number.isFinite\<close>, has
  the type \<open>JsNumber\<close>, which also holds what is not a finite number: the two
  infinities, and \<open>NotANumber\<close> for NaN and for a value that is no number at all.
\<close>

datatype JsNumber =
    Whole int
  | PosInfinity
  | NegInfinity
  | NotANumber

datatype Role = Red | Blue

datatype ConnectionMode = Offer | Answer

datatype ConnectionStatus = StatusIdle | CreatingOffer | WaitingAnswer | Connected | StatusError

datatype GameState = Idle | Running | Ended

record VoteEvent =
  target :: Role
  elapsed :: int

record SnapshotEvent =
  at :: int
  evTarget :: Role

text \<open>
  The fields of \<open>GameSnapshot\<close> and \<open>HistoryIndexEntry\<close> carry a prefix, since the
  source uses the same names (\<open>gameId\<close>, \<open>startTimeSec\<close>, ...) for the component's
  state variables.
\<close>

record GameSnapshot =
  snapVersion :: int
  snapLastUpdatedAt :: int
  snapGameId :: string
  snapSessionId :: "string option"
  snapIsHost :: bool
  snapLockedRole :: Role
  snapStartTimeSec :: int
  snapEndTimeSec :: int
  snapGameState :: GameState
  snapScoreRed :: int
  snapScoreBlue :: int
  snapEvents :: "SnapshotEvent list"

record HistoryIndexEntry =
  hGameId :: string
  hStartTimeSec :: int
  hEndTimeSec :: int
  hScoreRed :: int
  hScoreBlue :: int
  hLastUpdatedAt :: int

record SessionRoles =
  hostRole :: Role
  guestRole :: Role

record Scores =
  red :: int
  blue :: int

datatype Message =
    Start string JsNumber "SessionRoles option"
  | Vote string Role int
  | ProposeEndChange string int
  | AcceptEndChange string int
  | RejectEndChange string int
  | ProposeEndNow string
  | AcceptEndNow string
  | RejectEndNow string
  | AssignRoles string Role Role
  | AssignRolesAck string Role
  | StateSnapshot string GameSnapshot

text \<open>
  The user-facing texts of the source, one constructor per distinct text (the texts
  themselves are Chinese sentences; a role label that a text embeds is an argument).
\<close>

datatype Notice =
    WaitingForHostAssignment
  | RoleAutoCorrectedRetry
  | RoleCorrectedFromGameData
  | RoleLockedAs Role
  | RoleAdjusted Role Role
  | RoleAlreadyLocked
  | AssignmentDoneYourRoleLocked
  | AssignmentDoneBothSynced
  | PeerAcceptedEndChange
  | PeerRejectedEndChange
  | PeerAcceptedEndNow
  | PeerRejectedEndNow
  | YouProposedEndChange
  | YouProposedEndNow
  | YouAcceptedEndChange
  | YouRejectedEndChange
  | YouAcceptedEndNow
  | YouRejectedEndNow
  | ErrChannelNotReady
  | ErrSendFailed
  | ErrAssignRolesSendFailed
  | ErrHistoryReadOnlyStart
  | ErrLockRoleFirst
  | ErrConnectFirstStart
  | ErrPickValidEndTime
  | ErrEndTimeNotInFuture
  | ErrHistoryReadOnlyNegotiate
  | ErrConnectFirstNegotiate
  | ErrNotRunningNegotiate
  | ErrPickValidNewEndTime
  | ErrNewEndTimeNotInFuture
  | ErrHistoryReadOnlyEndNow
  | ErrConnectFirstEndNow
  | ErrNotRunningEndNow
  | ErrHistoryReadOnlyVote
  | ErrRoleNotLockedVote
  | ErrNotConnectedVote
  | ErrNotRunningVote
  | ErrChannelError
  | ErrIceProblem
  | ErrConnectionInterrupted
  | ErrAnswerFailed
  | ErrOfferFailed
  | ErrPasteOfferFirst

datatype ConsoleEntry =
    WarnForeignSnapshot "string option" string
  | WarnVoteTargetMismatch Role Role
  | ErrorLogged

datatype ReadyState = Connecting | Open | Closing | Closed

text \<open>What \<open>window.localStorage\<close> holds under a key: a plain text or a serialized value.\<close>

datatype Stored =
    StoredText string
  | StoredSnapshot GameSnapshot
  | StoredIndex "HistoryIndexEntry list"

type_synonym Store = "string \<rightharpoonup> Stored"

text \<open>
  The state of one peer: the \<open>useState\<close> variables of the protocol, the \<open>useRef\<close>
  cells (suffix \<open>Ref\<close>), and what the peer has done to the outside: the local store,
  the messages handed to the data channel (\<open>outbox\<close>, oldest first) and the console.
  A timer handle is modelled by whether the timer is pending. The variables that only
  serve the signalling forms and the history tabs are left out.
\<close>

record App =
  lockedRole :: "Role option"
  roleLocked :: bool
  sessionId :: "string option"
  roleSyncMessage :: "Notice option"
  connectionMode :: ConnectionMode
  connectionStatus :: ConnectionStatus
  error :: "Notice option"
  gameState :: GameState
  currentRoundId :: "string option"
  currentGameId :: "string option"
  storedGameIdHint :: "string option"
  offlineSnapshotMode :: bool
  snapshotMeta :: "(int \<times> int) option"
  historyIndex :: "HistoryIndexEntry list"
  historyViewSnapshot :: "GameSnapshot option"
  startTimeSec :: "int option"
  endTimeSec :: "int option"
  resolvedEndTimeSec :: "int option"
  timeRemaining :: int
  scores :: Scores
  voteEvents :: "VoteEvent list"
  incomingEndChange :: "int option"
  incomingEndNow :: bool
  infoMessage :: "Notice option"
  rolesConfirmed :: bool
  sessionRoles :: "SessionRoles option"
  voteIgnoreMessage :: "Notice option"
  roleAssignmentNotice :: "Notice option"
  dataChannelRef :: "ReadyState option"
  timerRef :: bool
  currentRoundIdRef :: "string option"
  sessionIdRef :: "string option"
  lockedRoleRef :: "Role option"
  connectionModeRef :: ConnectionMode
  hasSentAssignRolesRef :: bool
  snapshotVersionRef :: int
  hasSentStateSnapshotRef :: bool
  assignRolesRetryCountRef :: int
  assignRolesRetryTimerRef :: bool
  rolesConfirmedRef :: bool
  sessionRolesRef :: "SessionRoles option"
  localStorage :: Store
  outbox :: "Message list"
  console :: "ConsoleEntry list"


text \<open>
  What a handler takes from its environment while it runs: the clock
  (\<open>Date.now()\<close>, in milliseconds), whether the local store accepts the writes of the
  handler's \<open>try\<close> block (\<open>False\<close>: the first write throws and the \<open>catch\<close> logs
  it), whether \<open>channel.send\<close> returns without throwing, and the value that
  \<open>generateSessionId()\<close> returns if it is called.
\<close>

record Env =
  nowMs :: int
  storageOk :: bool
  sendOk :: bool
  freshSessionId :: string

datatype ResyncReason = FallbackStart | VoteMismatch

section \<open>Helpers\<close>

definition nowSecOf :: "Env \<Rightarrow> int" where
  \<comment> \<open>\<open>Math.floor(Date.now() / 1000)\<close>; the quotient of the doubles is near enough to
      the exact one for the floor to be exact over the whole range of \<open>Date\<close>\<close>
  "nowSecOf env = nowMs env div 1000"

fun bitLength :: "nat \<Rightarrow> nat" where
  \<comment> \<open>the number of binary digits of a natural number\<close>
  "bitLength n = (if n = 0 then 0 else Suc (bitLength (n div 2)))"

declare bitLength.simps [simp del]

definition roundToDouble :: "int \<Rightarrow> int" where
  \<comment> \<open>the double nearest to a whole number. A double has 53 significant binary digits:
      a number of up to 53 digits is a double; one of \<open>len\<close> digits lies between two
      neighbouring multiples of \<open>2 ^ (len - 53)\<close>, and the nearer one is taken, on a tie
      the one with the even multiplier. (Results beyond the largest double, where the
      source gets an infinity, are outside the model.)\<close>
  "roundToDouble v =
     (let m = nat \<bar>v\<bar>; len = bitLength m
      in if len \<le> 53 then v
         else
           (let u = 2 ^ (len - 53);
                q = m div u;
                r = m mod u;
                half = u div 2;
                q1 = (if r < half then q
                      else if half < r then q + 1
                      else if even q then q else q + 1)
            in sgn v * int (q1 * u)))"

definition jsPlus :: "int \<Rightarrow> int \<Rightarrow> int" where
  \<comment> \<open>\<open>a + b\<close> on whole doubles\<close>
  "jsPlus a b = roundToDouble (a + b)"

definition jsMinus :: "int \<Rightarrow> int \<Rightarrow> int" where
  \<comment> \<open>\<open>a - b\<close> on whole doubles\<close>
  "jsMinus a b = roundToDouble (a - b)"

definition isFinite :: "JsNumber \<Rightarrow> bool" where
  \<comment> \<open>\<open>Number.isFinite\<close>\<close>
  "isFinite x = (case x of Whole n \<Rightarrow> True | _ \<Rightarrow> False)"

definition jsLessEq :: "JsNumber \<Rightarrow> int \<Rightarrow> bool" where
  \<comment> \<open>\<open>x <= t\<close> for a whole \<open>t\<close>\<close>
  "jsLessEq x t =
     (case x of Whole n \<Rightarrow> n \<le> t | NegInfinity \<Rightarrow> True | PosInfinity \<Rightarrow> False
      | NotANumber \<Rightarrow> False)"

definition jsGreater :: "JsNumber \<Rightarrow> int \<Rightarrow> bool" where
  \<comment> \<open>\<open>x > t\<close> for a whole \<open>t\<close>\<close>
  "jsGreater x t =
     (case x of Whole n \<Rightarrow> t < n | PosInfinity \<Rightarrow> True | NegInfinity \<Rightarrow> False
      | NotANumber \<Rightarrow> False)"

definition truthyStr :: "string option \<Rightarrow> bool" where
  \<comment> \<open>JavaScript truthiness of a \<open>string | null\<close>: neither null nor empty\<close>
  "truthyStr v = (case v of None \<Rightarrow> False | Some t \<Rightarrow> t \<noteq> [])"

definition truthyNum :: "int option \<Rightarrow> bool" where
  \<comment> \<open>JavaScript truthiness of a \<open>number | null\<close>: neither null nor zero\<close>
  "truthyNum v = (case v of None \<Rightarrow> False | Some n \<Rightarrow> n \<noteq> 0)"

definition otherRole :: "Role \<Rightarrow> Role" where
  \<comment> \<open>\<open>role === 'red' ? 'blue' : 'red'\<close>\<close>
  "otherRole r = (if r = Red then Blue else Red)"

definition GAME_ID_STORAGE_KEY :: string where
  "GAME_ID_STORAGE_KEY = ''currentGameId''"

definition SNAPSHOT_LAST_ID_KEY :: string where
  "SNAPSHOT_LAST_ID_KEY = ''vote2p:lastSnapshotId''"

definition SNAPSHOT_KEY_PREFIX :: string where
  "SNAPSHOT_KEY_PREFIX = ''vote2p:snapshot:''"

definition HISTORY_INDEX_KEY :: string where
  "HISTORY_INDEX_KEY = ''vote2p:historyIndex''"

definition getSnapshotStorageKey :: "string \<Rightarrow> string" where
  "getSnapshotStorageKey gid = SNAPSHOT_KEY_PREFIX @ gid"

definition tryStorage :: "Env \<Rightarrow> (Store \<Rightarrow> Store) \<Rightarrow> App \<Rightarrow> App" where
  \<comment> \<open>\<open>try { body } catch (e) { console.error(e) }\<close> around a block that only
      works on the local store\<close>
  "tryStorage env body s =
     (if storageOk env then s\<lparr>localStorage := body (localStorage s)\<rparr>
      else s\<lparr>console := console s @ [ErrorLogged]\<rparr>)"

definition setItem :: "string \<Rightarrow> Stored \<Rightarrow> Store \<Rightarrow> Store" where
  "setItem k v m = m(k \<mapsto> v)"

definition removeItem :: "string \<Rightarrow> Store \<Rightarrow> Store" where
  "removeItem k m = m(k := None)"

definition getText :: "string \<Rightarrow> Store \<Rightarrow> string option" where
  \<comment> \<open>\<open>localStorage.getItem\<close> of a key that holds a plain text\<close>
  "getText k m = (case m k of Some (StoredText x) \<Rightarrow> Some x | _ \<Rightarrow> None)"

definition bumpScore :: "Role \<Rightarrow> Scores \<Rightarrow> Scores" where
  \<comment> \<open>\<open>{ ...prev, [target]: prev[target] + 1 }\<close>\<close>
  "bumpScore r sc =
     (case r of Red \<Rightarrow> sc\<lparr>red := jsPlus (red sc) 1\<rparr> | Blue \<Rightarrow> sc\<lparr>blue := jsPlus (blue sc) 1\<rparr>)"

definition scoreOf :: "Role \<Rightarrow> Scores \<Rightarrow> int" where
  "scoreOf r sc = (case r of Red \<Rightarrow> red sc | Blue \<Rightarrow> blue sc)"

section \<open>Round operations\<close>

definition resetGameState :: "Env \<Rightarrow> App \<Rightarrow> App" where
  "resetGameState env s =
     (let s1 = s\<lparr>timerRef := False, currentRoundId := None, currentRoundIdRef := None,
                 currentGameId := None, storedGameIdHint := None, snapshotVersionRef := 0,
                 snapshotMeta := None, offlineSnapshotMode := False\<rparr>;
          s2 = tryStorage env (removeItem GAME_ID_STORAGE_KEY) s1
      in s2\<lparr>startTimeSec := None, endTimeSec := None, resolvedEndTimeSec := None,
            scores := \<lparr>red = 0, blue = 0\<rparr>, voteEvents := [], timeRemaining := 0,
            gameState := Idle, incomingEndChange := None, incomingEndNow := False,
            infoMessage := None, voteIgnoreMessage := None\<rparr>)"

definition applyVote :: "Role \<Rightarrow> int \<Rightarrow> App \<Rightarrow> App" where
  "applyVote tgt el s =
     s\<lparr>scores := bumpScore tgt (scores s),
       voteEvents := voteEvents s @ [\<lparr>target = tgt, elapsed = el\<rparr>],
       voteIgnoreMessage := None\<rparr>"

definition beginGameWithEndTime :: "string \<Rightarrow> int \<Rightarrow> JsNumber \<Rightarrow> App \<Rightarrow> App" where
  "beginGameWithEndTime roundId startSec endSec s =
     (if \<not> isFinite endSec \<or> jsLessEq endSec startSec then s
      else case endSec of
        Whole endWhole \<Rightarrow>
          s\<lparr>currentRoundId := Some roundId, currentRoundIdRef := Some roundId,
            startTimeSec := Some startSec, endTimeSec := Some endWhole,
            resolvedEndTimeSec := Some endWhole, scores := \<lparr>red = 0, blue = 0\<rparr>,
            voteEvents := [], timeRemaining := max 0 (jsMinus endWhole startSec),
            gameState := Running, incomingEndChange := None, incomingEndNow := False,
            infoMessage := None\<rparr>
      | _ \<Rightarrow> s)"

definition applyEndTimeUpdate :: "int \<Rightarrow> App \<Rightarrow> App" where
  "applyEndTimeUpdate newEndTimeSec s =
     s\<lparr>endTimeSec := Some newEndTimeSec, resolvedEndTimeSec := Some newEndTimeSec\<rparr>"

definition applyImmediateEndLocal :: "Env \<Rightarrow> App \<Rightarrow> App" where
  "applyImmediateEndLocal env s =
     (let nowSec = nowSecOf env
      in s\<lparr>timerRef := False, endTimeSec := Some nowSec, resolvedEndTimeSec := Some nowSec,
            timeRemaining := 0, gameState := Ended, incomingEndNow := False\<rparr>)"

section \<open>Session operations\<close>

definition clearAssignRolesRetryTimer :: "App \<Rightarrow> App" where
  "clearAssignRolesRetryTimer s = s\<lparr>assignRolesRetryTimerRef := False\<rparr>"

definition resetSessionAndRolesForNewAnswerJoin :: "App \<Rightarrow> App" where
  "resetSessionAndRolesForNewAnswerJoin s =
     (let s1 = s\<lparr>roleLocked := False, lockedRole := None,
                 roleSyncMessage := Some WaitingForHostAssignment, sessionRoles := None,
                 sessionRolesRef := None, rolesConfirmed := False, rolesConfirmedRef := False\<rparr>
      in (clearAssignRolesRetryTimer s1)\<lparr>assignRolesRetryCountRef := 0\<rparr>)"

definition ensureRoleFromSessionRoles :: "ResyncReason \<Rightarrow> App \<Rightarrow> App" where
  "ensureRoleFromSessionRoles reason s =
     (case sessionRolesRef s of
        None \<Rightarrow> s
      | Some roles \<Rightarrow>
          (let expectedRole = (if connectionModeRef s = Offer then hostRole roles else guestRole roles);
               s1 = s\<lparr>roleLocked := True\<rparr>
           in if lockedRole s1 \<noteq> Some expectedRole
              then s1\<lparr>roleSyncMessage :=
                        Some (if reason = VoteMismatch then RoleAutoCorrectedRetry
                              else RoleCorrectedFromGameData),
                      lockedRole := Some expectedRole\<rparr>
              else s1))"

definition sendAssignRolesOnce :: "Env \<Rightarrow> App \<Rightarrow> bool \<times> App" where
  "sendAssignRolesOnce env s =
     (if dataChannelRef s \<noteq> Some Open then (False, s)
      else case (case lockedRoleRef s of Some r \<Rightarrow> Some r | None \<Rightarrow> lockedRole s) of
        None \<Rightarrow> (False, s)
      | Some currentLockedRole \<Rightarrow>
          (let session = (case sessionIdRef s of Some x \<Rightarrow> x | None \<Rightarrow> freshSessionId env);
               hostR = currentLockedRole;
               guestR = otherRole hostR;
               sessionRolesValue = \<lparr>hostRole = hostR, guestRole = guestR\<rparr>;
               s1 = s\<lparr>sessionId := Some session, sessionIdRef := Some session,
                       sessionRoles := Some sessionRolesValue,
                       sessionRolesRef := Some sessionRolesValue\<rparr>
           in if sendOk env
              then (True, s1\<lparr>outbox := outbox s1 @ [AssignRoles session hostR guestR],
                             hasSentAssignRolesRef := True, roleLocked := True,
                             lockedRole := Some hostR,
                             roleSyncMessage := Some (RoleLockedAs hostR)\<rparr>)
              else (False, s1\<lparr>console := console s1 @ [ErrorLogged],
                              error := Some ErrAssignRolesSendFailed\<rparr>)))"

definition sendMessage :: "Env \<Rightarrow> Message \<Rightarrow> App \<Rightarrow> App" where
  "sendMessage env msg s =
     (if dataChannelRef s \<noteq> Some Open then s\<lparr>error := Some ErrChannelNotReady\<rparr>
      else if sendOk env then s\<lparr>outbox := outbox s @ [msg]\<rparr>
      else s\<lparr>console := console s @ [ErrorLogged], error := Some ErrSendFailed\<rparr>)"

section \<open>Snapshot store\<close>

definition buildSnapshotFromState :: "Env \<Rightarrow> App \<Rightarrow> GameSnapshot option" where
  \<comment> \<open>the four \<open>!x\<close> tests of the source: a null, an empty string and a zero all give null\<close>
  "buildSnapshotFromState env s =
     (case (currentRoundId s, startTimeSec s, endTimeSec s, lockedRole s) of
        (Some rid, Some startSec, Some endSec, Some role) \<Rightarrow>
          if rid = [] \<or> startSec = 0 \<or> endSec = 0 then None
          else if gameState s = Idle then None
          else Some \<lparr>snapVersion = snapshotVersionRef s, snapLastUpdatedAt = nowMs env,
                     snapGameId = rid, snapSessionId = sessionId s,
                     snapIsHost = (connectionModeRef s = Offer), snapLockedRole = role,
                     snapStartTimeSec = startSec, snapEndTimeSec = endSec,
                     snapGameState = gameState s, snapScoreRed = red (scores s),
                     snapScoreBlue = blue (scores s),
                     snapEvents = map (\<lambda>event. \<lparr>at = elapsed event, evTarget = target event\<rparr>)
                                      (voteEvents s)\<rparr>
      | _ \<Rightarrow> None)"

definition persistSnapshot :: "Env \<Rightarrow> App \<Rightarrow> GameSnapshot option \<times> App" where
  \<comment> \<open>returns the snapshot and the state; the \<open>try\<close> block holds the two writes and
      then the update of the version cell, so the cell moves only if the writes succeed\<close>
  "persistSnapshot env s =
     (case buildSnapshotFromState env s of
        None \<Rightarrow> (None, s)
      | Some base \<Rightarrow>
          (let newVersion = jsPlus (snapshotVersionRef s) 1;
               snapshot = base\<lparr>snapVersion := newVersion, snapLastUpdatedAt := nowMs env\<rparr>
           in (Some snapshot,
               if storageOk env
               then s\<lparr>localStorage :=
                        setItem SNAPSHOT_LAST_ID_KEY (StoredText (snapGameId snapshot))
                          (setItem (getSnapshotStorageKey (snapGameId snapshot))
                             (StoredSnapshot snapshot) (localStorage s)),
                      snapshotVersionRef := newVersion,
                      snapshotMeta := Some (newVersion, snapLastUpdatedAt snapshot)\<rparr>
               else s\<lparr>console := console s @ [ErrorLogged]\<rparr>)))"

definition hydrateStateFromSnapshot :: "Env \<Rightarrow> GameSnapshot \<Rightarrow> bool \<Rightarrow> App \<Rightarrow> App" where
  \<comment> \<open>the \<open>bool\<close> is \<open>options?.offline\<close>\<close>
  "hydrateStateFromSnapshot env snapshot offline s =
     (let nowSec = nowSecOf env;
          remaining = (if snapGameState snapshot = Running
                       then max 0 (jsMinus (snapEndTimeSec snapshot) nowSec) else 0);
          s1 = s\<lparr>currentRoundId := Some (snapGameId snapshot),
                  currentRoundIdRef := Some (snapGameId snapshot),
                  currentGameId := Some (snapGameId snapshot),
                  startTimeSec := Some (snapStartTimeSec snapshot),
                  endTimeSec := Some (snapEndTimeSec snapshot),
                  resolvedEndTimeSec := Some (snapEndTimeSec snapshot),
                  scores := \<lparr>red = snapScoreRed snapshot, blue = snapScoreBlue snapshot\<rparr>,
                  voteEvents := map (\<lambda>event. \<lparr>target = evTarget event, elapsed = at event\<rparr>)
                                    (snapEvents snapshot),
                  timeRemaining := remaining,
                  gameState := snapGameState snapshot,
                  lockedRole := Some (snapLockedRole snapshot),
                  roleLocked := True,
                  sessionId := snapSessionId snapshot,
                  sessionIdRef := snapSessionId snapshot,
                  snapshotVersionRef := snapVersion snapshot,
                  snapshotMeta := Some (snapVersion snapshot,
                                        if snapLastUpdatedAt snapshot = 0 then nowMs env
                                        else snapLastUpdatedAt snapshot)\<rparr>;
          s2 = tryStorage env
                 (\<lambda>t. setItem SNAPSHOT_LAST_ID_KEY (StoredText (snapGameId snapshot))
                        (setItem (getSnapshotStorageKey (snapGameId snapshot))
                           (StoredSnapshot snapshot) t))
                 s1;
          s3 = (if offline then s2\<lparr>offlineSnapshotMode := True\<rparr> else s2)
      in s3\<lparr>storedGameIdHint := Some (snapGameId snapshot), historyViewSnapshot := None\<rparr>)"

section \<open>History index\<close>

fun findIndex :: "('a \<Rightarrow> bool) \<Rightarrow> 'a list \<Rightarrow> int" where
  \<comment> \<open>\<open>Array.prototype.findIndex\<close>: the first position that satisfies the test, or -1\<close>
  "findIndex p [] = - 1"
| "findIndex p (x # xs) =
     (if p x then 0 else (let i = findIndex p xs in if i < 0 then - 1 else i + 1))"

definition historyCompare :: "HistoryIndexEntry \<Rightarrow> HistoryIndexEntry \<Rightarrow> int" where
  \<comment> \<open>the comparator handed to \<open>sort\<close>: negative when \<open>a\<close> goes first\<close>
  "historyCompare a b =
     (if hEndTimeSec a \<noteq> hEndTimeSec b then jsMinus (hEndTimeSec b) (hEndTimeSec a)
      else jsMinus (hLastUpdatedAt b) (hLastUpdatedAt a))"

fun insortBy :: "('a \<Rightarrow> 'a \<Rightarrow> int) \<Rightarrow> 'a \<Rightarrow> 'a list \<Rightarrow> 'a list" where
  "insortBy cmp x [] = [x]"
| "insortBy cmp x (y # ys) = (if cmp x y \<le> 0 then x # y # ys else y # insortBy cmp x ys)"

definition sortBy :: "('a \<Rightarrow> 'a \<Rightarrow> int) \<Rightarrow> 'a list \<Rightarrow> 'a list" where
  \<comment> \<open>\<open>Array.prototype.sort\<close> with a comparator: a stable sort, here by insertion\<close>
  "sortBy cmp xs = foldr (insortBy cmp) xs []"

definition upsertHistoryIndex :: "Env \<Rightarrow> GameSnapshot \<Rightarrow> App \<Rightarrow> App" where
  "upsertHistoryIndex env snapshot s =
     (if snapGameState snapshot \<noteq> Ended then s
      else
        (let entry = \<lparr>hGameId = snapGameId snapshot, hStartTimeSec = snapStartTimeSec snapshot,
                      hEndTimeSec = snapEndTimeSec snapshot, hScoreRed = snapScoreRed snapshot,
                      hScoreBlue = snapScoreBlue snapshot,
                      hLastUpdatedAt = snapLastUpdatedAt snapshot\<rparr>;
             prev = historyIndex s;
             existingIndex = findIndex (\<lambda>item. hGameId item = hGameId entry) prev;
             next0 = (if existingIndex \<ge> 0 then prev[nat existingIndex := entry]
                      else prev @ [entry]);
             next = sortBy historyCompare next0
         in (tryStorage env (setItem HISTORY_INDEX_KEY (StoredIndex next)) s)
              \<lparr>historyIndex := next\<rparr>))"

definition handleDeleteHistoryGame :: "Env \<Rightarrow> string \<Rightarrow> bool \<Rightarrow> App \<Rightarrow> App" where
  \<comment> \<open>the \<open>bool\<close>: whether the tab on display is the one of the deleted round\<close>
  "handleDeleteHistoryGame env gid onDisplay s =
     (let next = filter (\<lambda>item. hGameId item \<noteq> gid) (historyIndex s);
          s1 = (tryStorage env
                  (\<lambda>t. removeItem (getSnapshotStorageKey gid)
                         (setItem HISTORY_INDEX_KEY (StoredIndex next) t))
                  s)
                 \<lparr>historyIndex := next\<rparr>
      in if onDisplay then s1\<lparr>historyViewSnapshot := None\<rparr> else s1)"

section \<open>The dispatcher of received messages\<close>

definition handleIncomingMessage :: "Env \<Rightarrow> Message \<Rightarrow> App \<Rightarrow> App" where
  "handleIncomingMessage env msg s =
     (case msg of
        Start roundId endTime roles \<Rightarrow>
          (let nowSec = nowSecOf env
           in if \<not> isFinite endTime \<or> jsLessEq endTime nowSec then s
              else
                (let s1 = (case roles of
                             None \<Rightarrow> s
                           | Some r \<Rightarrow> ensureRoleFromSessionRoles FallbackStart
                                        (s\<lparr>sessionRoles := Some r, sessionRolesRef := Some r\<rparr>));
                     s2 = s1\<lparr>snapshotVersionRef := 0, snapshotMeta := None,
                             offlineSnapshotMode := False, currentGameId := Some roundId,
                             storedGameIdHint := Some roundId\<rparr>;
                     s3 = tryStorage env (setItem GAME_ID_STORAGE_KEY (StoredText roundId)) s2
                 in beginGameWithEndTime roundId nowSec endTime s3))
      | StateSnapshot roundId snapshot \<Rightarrow>
          if snapGameId snapshot = [] then s
          else if truthyStr (currentRoundIdRef s) \<and> currentRoundIdRef s \<noteq> Some (snapGameId snapshot)
          then s\<lparr>console := console s @ [WarnForeignSnapshot (currentRoundIdRef s) (snapGameId snapshot)]\<rparr>
          else (hydrateStateFromSnapshot env snapshot False s)\<lparr>offlineSnapshotMode := False\<rparr>
      | Vote roundId tgt atSec \<Rightarrow>
          if \<not> truthyStr (currentRoundIdRef s) \<or> Some roundId \<noteq> currentRoundIdRef s then s
          else (case lockedRoleRef s of
                  None \<Rightarrow> s
                | Some localLockedRole \<Rightarrow>
                    if tgt \<noteq> localLockedRole
                    then ensureRoleFromSessionRoles VoteMismatch
                           (s\<lparr>console := console s @ [WarnVoteTargetMismatch localLockedRole tgt],
                              voteIgnoreMessage := Some RoleAutoCorrectedRetry\<rparr>)
                    else applyVote tgt atSec s)
      | AssignRoles newSessionId hostR guestR \<Rightarrow>
          (let mode = connectionModeRef s;
               myRole = (if mode = Offer then hostR else guestR);
               sessionRolesValue = \<lparr>hostRole = hostR, guestRole = guestR\<rparr>;
               s1 = s\<lparr>sessionId := Some newSessionId, sessionIdRef := Some newSessionId,
                       sessionRoles := Some sessionRolesValue,
                       sessionRolesRef := Some sessionRolesValue, roleLocked := True\<rparr>;
               s2 = s1\<lparr>roleSyncMessage :=
                          (case lockedRole s1 of
                             None \<Rightarrow> Some (RoleLockedAs myRole)
                           | Some prev \<Rightarrow> if prev \<noteq> myRole then Some (RoleAdjusted prev myRole)
                                          else Some (RoleLockedAs myRole)),
                        lockedRole := Some myRole\<rparr>
           in if mode = Answer
              then (sendMessage env (AssignRolesAck newSessionId myRole) s2)
                     \<lparr>roleAssignmentNotice := Some AssignmentDoneYourRoleLocked\<rparr>
              else s2)
      | AssignRolesAck ackSessionId myRole \<Rightarrow>
          (case sessionIdRef s of
             None \<Rightarrow> s
           | Some currentSession \<Rightarrow>
               if currentSession = [] \<or> ackSessionId \<noteq> currentSession then s
               else (clearAssignRolesRetryTimer (s\<lparr>rolesConfirmedRef := True, rolesConfirmed := True\<rparr>))
                      \<lparr>roleAssignmentNotice := Some AssignmentDoneBothSynced\<rparr>)
      | ProposeEndChange roundId proposedEndTime \<Rightarrow>
          if \<not> truthyStr (currentRoundIdRef s) \<or> Some roundId \<noteq> currentRoundIdRef s then s
          else s\<lparr>incomingEndChange := Some proposedEndTime\<rparr>
      | AcceptEndChange roundId proposedEndTime \<Rightarrow>
          if \<not> truthyStr (currentRoundIdRef s) \<or> Some roundId \<noteq> currentRoundIdRef s then s
          else (applyEndTimeUpdate proposedEndTime s)\<lparr>infoMessage := Some PeerAcceptedEndChange\<rparr>
      | RejectEndChange roundId proposedEndTime \<Rightarrow>
          if \<not> truthyStr (currentRoundIdRef s) \<or> Some roundId \<noteq> currentRoundIdRef s then s
          else s\<lparr>infoMessage := Some PeerRejectedEndChange\<rparr>
      | ProposeEndNow roundId \<Rightarrow>
          if \<not> truthyStr (currentRoundIdRef s) \<or> Some roundId \<noteq> currentRoundIdRef s then s
          else s\<lparr>incomingEndNow := True\<rparr>
      | AcceptEndNow roundId \<Rightarrow>
          if \<not> truthyStr (currentRoundIdRef s) \<or> Some roundId \<noteq> currentRoundIdRef s then s
          else (applyImmediateEndLocal env s)\<lparr>infoMessage := Some PeerAcceptedEndNow\<rparr>
      | RejectEndNow roundId \<Rightarrow>
          if \<not> truthyStr (currentRoundIdRef s) \<or> Some roundId \<noteq> currentRoundIdRef s then s
          else s\<lparr>infoMessage := Some PeerRejectedEndNow\<rparr>)"

section \<open>Effects and timers\<close>

text \<open>
  The component mirrors six state variables into ref cells, each by an effect that
  runs after a render in which the variable changed.
\<close>

datatype MirroredRef =
  ModeCell | RoleCell | SessionCell | ConfirmedCell | SessionRolesCell | RoundCell

definition syncRef :: "MirroredRef \<Rightarrow> App \<Rightarrow> App" where
  "syncRef c s =
     (case c of
        ModeCell \<Rightarrow> s\<lparr>connectionModeRef := connectionMode s\<rparr>
      | RoleCell \<Rightarrow> s\<lparr>lockedRoleRef := lockedRole s\<rparr>
      | SessionCell \<Rightarrow> s\<lparr>sessionIdRef := sessionId s\<rparr>
      | ConfirmedCell \<Rightarrow> s\<lparr>rolesConfirmedRef := rolesConfirmed s\<rparr>
      | SessionRolesCell \<Rightarrow> s\<lparr>sessionRolesRef := sessionRoles s\<rparr>
      | RoundCell \<Rightarrow> s\<lparr>currentRoundIdRef := currentRoundId s\<rparr>)"

definition updateRemaining :: "Env \<Rightarrow> int \<Rightarrow> App \<Rightarrow> App" where
  \<comment> \<open>the interval callback; \<open>endSec\<close> is the \<open>endTimeSec\<close> its closure captured\<close>
  "updateRemaining env endSec s =
     (let nowSec = nowSecOf env;
          remaining = jsMinus endSec nowSec
      in if remaining \<le> 0 then s\<lparr>timeRemaining := 0, gameState := Ended, timerRef := False\<rparr>
         else s\<lparr>timeRemaining := remaining\<rparr>)"

definition roundTimerEffect :: "Env \<Rightarrow> App \<Rightarrow> App" where
  \<comment> \<open>the effect on \<open>[endTimeSec, gameState]\<close>: the cleanup of its last run, then its body\<close>
  "roundTimerEffect env s =
     (let s0 = s\<lparr>timerRef := False\<rparr>
      in case endTimeSec s0 of
           None \<Rightarrow> s0
         | Some endSec \<Rightarrow>
             if endSec = 0 \<or> gameState s0 \<noteq> Running then s0
             else (updateRemaining env endSec s0)\<lparr>timerRef := True\<rparr>)"

definition persistEffect :: "Env \<Rightarrow> App \<Rightarrow> App" where
  "persistEffect env s =
     (if \<not> truthyStr (currentRoundId s) \<or> \<not> truthyNum (startTimeSec s)
         \<or> \<not> truthyNum (endTimeSec s) \<or> lockedRole s = None then s
      else if gameState s = Idle then s
      else case persistSnapshot env s of
             (None, s1) \<Rightarrow> s1
           | (Some snapshot, s1) \<Rightarrow>
               if snapGameState snapshot = Ended then upsertHistoryIndex env snapshot s1 else s1)"

definition roundEndedEffect :: "Env \<Rightarrow> App \<Rightarrow> App" where
  "roundEndedEffect env s =
     (if gameState s \<noteq> Ended then s
      else
        (let s1 = (tryStorage env (removeItem GAME_ID_STORAGE_KEY) s)\<lparr>storedGameIdHint := None\<rparr>
         in case endTimeSec s1 of
              None \<Rightarrow> s1
            | Some endSec \<Rightarrow>
                if truthyStr (currentRoundId s1) \<and> endSec \<noteq> 0 \<and> nowSecOf env > endSec
                then tryStorage env (removeItem SNAPSHOT_LAST_ID_KEY) s1 else s1))"

definition scheduleRetry :: "App \<Rightarrow> App" where
  \<comment> \<open>clears the pending timeout and arms a new one (2000 ms)\<close>
  "scheduleRetry s = (clearAssignRolesRetryTimer s)\<lparr>assignRolesRetryTimerRef := True\<rparr>"

definition retryTimeout :: "Env \<Rightarrow> App \<Rightarrow> App" where
  \<comment> \<open>the callback of the timeout armed by \<open>scheduleRetry\<close>; it runs only while pending\<close>
  "retryTimeout env s =
     (if \<not> assignRolesRetryTimerRef s then s
      else
        (let s0 = s\<lparr>assignRolesRetryTimerRef := False\<rparr>
         in if rolesConfirmedRef s0 then s0
            else if assignRolesRetryCountRef s0 \<ge> 3 then s0
            else if dataChannelRef s0 \<noteq> Some Open then s0
            else case sendAssignRolesOnce env s0 of
                   (False, s1) \<Rightarrow> s1
                 | (True, s1) \<Rightarrow>
                     scheduleRetry
                       (s1\<lparr>assignRolesRetryCountRef := jsPlus (assignRolesRetryCountRef s1) 1\<rparr>)))"

definition assignRolesEffect :: "Env \<Rightarrow> App \<Rightarrow> App" where
  "assignRolesEffect env s =
     (if connectionStatus s \<noteq> Connected
      then (clearAssignRolesRetryTimer s)
             \<lparr>assignRolesRetryCountRef := 0, rolesConfirmed := False, rolesConfirmedRef := False\<rparr>
      else if connectionModeRef s \<noteq> Offer then s
      else if lockedRole s = None then s
      else if assignRolesRetryCountRef s > 0 \<and> hasSentAssignRolesRef s then s
      else case sendAssignRolesOnce env s of
             (False, s1) \<Rightarrow> s1
           | (True, s1) \<Rightarrow>
               scheduleRetry
                 (s1\<lparr>assignRolesRetryCountRef := 1, rolesConfirmedRef := False,
                     rolesConfirmed := False\<rparr>))"

definition snapshotPushEffect :: "Env \<Rightarrow> App \<Rightarrow> App" where
  "snapshotPushEffect env s =
     (if connectionStatus s \<noteq> Connected then s\<lparr>hasSentStateSnapshotRef := False\<rparr>
      else if connectionModeRef s \<noteq> Offer then s
      else if \<not> truthyStr (currentRoundId s) \<or> \<not> truthyNum (startTimeSec s)
              \<or> \<not> truthyNum (endTimeSec s) \<or> lockedRole s = None then s
      else if gameState s = Idle then s
      else if hasSentStateSnapshotRef s then s
      else if dataChannelRef s \<noteq> Some Open then s
      else case buildSnapshotFromState env s of
             None \<Rightarrow> s
           | Some snapshot \<Rightarrow>
               if sendOk env
               then s\<lparr>outbox := outbox s @ [StateSnapshot (snapGameId snapshot) snapshot],
                      hasSentStateSnapshotRef := True\<rparr>
               else s\<lparr>console := console s @ [ErrorLogged]\<rparr>)"

section \<open>Local calls\<close>

definition orStr :: "string option \<Rightarrow> string option \<Rightarrow> string option" where
  \<comment> \<open>JavaScript \<open>a || b\<close> on \<open>string | null\<close>\<close>
  "orStr a b = (if truthyStr a then a else b)"

definition forgetSnapshotOf :: "string \<Rightarrow> Store \<Rightarrow> Store" where
  \<comment> \<open>removes the stored snapshot of a round and the last-snapshot pointer if it names it\<close>
  "forgetSnapshotOf gid m =
     (let m1 = removeItem (getSnapshotStorageKey gid) m
      in if getText SNAPSHOT_LAST_ID_KEY m1 = Some gid then removeItem SNAPSHOT_LAST_ID_KEY m1
         else m1)"

definition handleDiscardSnapshotFromBanner :: "Env \<Rightarrow> App \<Rightarrow> App" where
  "handleDiscardSnapshotFromBanner env s =
     (let gameId = orStr (orStr (currentRoundId s) (currentGameId s)) (storedGameIdHint s);
          s1 = tryStorage env
                 (\<lambda>t. case gameId of
                         Some gid \<Rightarrow> if gid \<noteq> [] then forgetSnapshotOf gid t
                                     else removeItem SNAPSHOT_LAST_ID_KEY t
                       | None \<Rightarrow> removeItem SNAPSHOT_LAST_ID_KEY t)
                 s
      in (resetGameState env s1)\<lparr>historyViewSnapshot := None\<rparr>)"

definition handleDiscardSnapshotFromStats :: "Env \<Rightarrow> App \<Rightarrow> App" where
  "handleDiscardSnapshotFromStats env s =
     (let gameId = orStr (orStr (orStr (map_option snapGameId (historyViewSnapshot s))
                                       (currentRoundId s))
                                (currentGameId s))
                         (storedGameIdHint s)
      in case gameId of
           None \<Rightarrow> s
         | Some gid \<Rightarrow>
             if gid = [] then s
             else (tryStorage env (forgetSnapshotOf gid) s)\<lparr>snapshotMeta := None\<rparr>)"

definition handleLoadHistoryGame :: "string \<Rightarrow> App \<Rightarrow> App" where
  \<comment> \<open>the read-only view of a stored round (the in-memory cache of opened tabs is left out)\<close>
  "handleLoadHistoryGame gid s =
     (case localStorage s (getSnapshotStorageKey gid) of
        Some (StoredSnapshot snapshot) \<Rightarrow>
          if snapGameId snapshot = [] then s
          else s\<lparr>historyViewSnapshot := Some snapshot, offlineSnapshotMode := False,
                 voteIgnoreMessage := None\<rparr>
      | _ \<Rightarrow> s)"

definition handleExitHistoryView :: "App \<Rightarrow> App" where
  "handleExitHistoryView s = s\<lparr>historyViewSnapshot := None\<rparr>"

definition clearSessionAndRoles :: "App \<Rightarrow> App" where
  \<comment> \<open>the block of resets shared by \<open>cleanupConnection\<close> and \<open>handleStartNewRound\<close>\<close>
  "clearSessionAndRoles s =
     (let s1 = s\<lparr>sessionId := None, sessionIdRef := None, hasSentAssignRolesRef := False,
                 hasSentStateSnapshotRef := False\<rparr>;
          s2 = (clearAssignRolesRetryTimer s1)\<lparr>assignRolesRetryCountRef := 0\<rparr>
      in s2\<lparr>rolesConfirmed := False, rolesConfirmedRef := False, sessionRoles := None,
            sessionRolesRef := None, lockedRole := None, roleLocked := False,
            roleSyncMessage := None, roleAssignmentNotice := None,
            historyViewSnapshot := None\<rparr>)"

definition handleStartNewRound :: "Env \<Rightarrow> App \<Rightarrow> App" where
  "handleStartNewRound env s =
     (let prevGameId = orStr (currentRoundIdRef s) (currentGameId s);
          s1 = resetGameState env s;
          s2 = tryStorage env
                 (\<lambda>t. let lastId = getText SNAPSHOT_LAST_ID_KEY t
                       in if truthyStr prevGameId
                          then (case prevGameId of
                                  Some gid \<Rightarrow> forgetSnapshotOf gid t
                                | None \<Rightarrow> t)
                          else removeItem SNAPSHOT_LAST_ID_KEY
                                 (case lastId of
                                    Some l \<Rightarrow> if l \<noteq> [] then removeItem (getSnapshotStorageKey l) t
                                              else t
                                  | None \<Rightarrow> t))
                 s1
      in (clearSessionAndRoles s2)
           \<lparr>infoMessage := None, voteIgnoreMessage := None, incomingEndChange := None,
            incomingEndNow := False\<rparr>)"

definition handleStartGame :: "Env \<Rightarrow> int option \<Rightarrow> string \<Rightarrow> App \<Rightarrow> App" where
  \<comment> \<open>\<open>endTimeUnix\<close> is what \<open>parseDatetimeLocalToUnixSeconds\<close> made of the form's input,
      \<open>gameId\<close> what \<open>generateGameId()\<close> returns\<close>
  "handleStartGame env endTimeUnix gameId s =
     (if historyViewSnapshot s \<noteq> None then s\<lparr>error := Some ErrHistoryReadOnlyStart\<rparr>
      else case lockedRole s of
        None \<Rightarrow> s\<lparr>error := Some ErrLockRoleFirst\<rparr>
      | Some role \<Rightarrow>
          if connectionStatus s \<noteq> Connected then s\<lparr>error := Some ErrConnectFirstStart\<rparr>
          else if \<not> truthyNum endTimeUnix then s\<lparr>error := Some ErrPickValidEndTime\<rparr>
          else (case endTimeUnix of
            None \<Rightarrow> s\<lparr>error := Some ErrPickValidEndTime\<rparr>
          | Some endSec \<Rightarrow>
              (let nowSec = nowSecOf env
               in if endSec \<le> nowSec then s\<lparr>error := Some ErrEndTimeNotInFuture\<rparr>
                  else
                    (let roles = (case sessionRolesRef s of
                                    Some r \<Rightarrow> r
                                  | None \<Rightarrow>
                                      if connectionModeRef s = Offer
                                      then \<lparr>hostRole = role, guestRole = otherRole role\<rparr>
                                      else \<lparr>hostRole = otherRole role, guestRole = role\<rparr>);
                         s1 = (if sessionRolesRef s = None
                               then s\<lparr>sessionRoles := Some roles, sessionRolesRef := Some roles\<rparr>
                               else s);
                         s2 = s1\<lparr>snapshotVersionRef := 0, snapshotMeta := None,
                                 offlineSnapshotMode := False, currentGameId := Some gameId,
                                 storedGameIdHint := Some gameId\<rparr>;
                         s3 = tryStorage env (setItem GAME_ID_STORAGE_KEY (StoredText gameId)) s2;
                         s4 = beginGameWithEndTime gameId nowSec (Whole endSec) s3
                     in sendMessage env (Start gameId (Whole endSec) (Some roles)) s4))))"

definition handleProposeEndChange :: "Env \<Rightarrow> int option \<Rightarrow> App \<Rightarrow> App" where
  \<comment> \<open>\<open>proposedUnix\<close> is what the parser made of the form's input\<close>
  "handleProposeEndChange env proposedUnix s =
     (if historyViewSnapshot s \<noteq> None then s\<lparr>error := Some ErrHistoryReadOnlyNegotiate\<rparr>
      else if connectionStatus s \<noteq> Connected then s\<lparr>error := Some ErrConnectFirstNegotiate\<rparr>
      else if gameState s \<noteq> Running \<or> \<not> truthyStr (currentRoundId s)
      then s\<lparr>error := Some ErrNotRunningNegotiate\<rparr>
      else case (proposedUnix, currentRoundId s) of
        (Some proposed, Some rid) \<Rightarrow>
          if proposed = 0 then s\<lparr>error := Some ErrPickValidNewEndTime\<rparr>
          else if proposed \<le> nowSecOf env then s\<lparr>error := Some ErrNewEndTimeNotInFuture\<rparr>
          else (sendMessage env (ProposeEndChange rid proposed) s)
                 \<lparr>infoMessage := Some YouProposedEndChange\<rparr>
      | _ \<Rightarrow> s\<lparr>error := Some ErrPickValidNewEndTime\<rparr>)"

definition handleProposeEndNow :: "Env \<Rightarrow> App \<Rightarrow> App" where
  "handleProposeEndNow env s =
     (if historyViewSnapshot s \<noteq> None then s\<lparr>error := Some ErrHistoryReadOnlyEndNow\<rparr>
      else if connectionStatus s \<noteq> Connected then s\<lparr>error := Some ErrConnectFirstEndNow\<rparr>
      else case currentRoundId s of
        None \<Rightarrow> s\<lparr>error := Some ErrNotRunningEndNow\<rparr>
      | Some rid \<Rightarrow>
          if gameState s \<noteq> Running \<or> rid = [] then s\<lparr>error := Some ErrNotRunningEndNow\<rparr>
          else (sendMessage env (ProposeEndNow rid) s)\<lparr>infoMessage := Some YouProposedEndNow\<rparr>)"

definition handleAcceptIncomingEndChange :: "Env \<Rightarrow> App \<Rightarrow> App" where
  "handleAcceptIncomingEndChange env s =
     (case (incomingEndChange s, currentRoundId s) of
        (Some proposed, Some rid) \<Rightarrow>
          if rid = [] then s
          else (sendMessage env (AcceptEndChange rid proposed) (applyEndTimeUpdate proposed s))
                 \<lparr>incomingEndChange := None, infoMessage := Some YouAcceptedEndChange\<rparr>
      | _ \<Rightarrow> s)"

definition handleRejectIncomingEndChange :: "Env \<Rightarrow> App \<Rightarrow> App" where
  "handleRejectIncomingEndChange env s =
     (case (incomingEndChange s, currentRoundId s) of
        (Some proposed, Some rid) \<Rightarrow>
          if rid = [] then s
          else (sendMessage env (RejectEndChange rid proposed) s)
                 \<lparr>incomingEndChange := None, infoMessage := Some YouRejectedEndChange\<rparr>
      | _ \<Rightarrow> s)"

definition handleAcceptIncomingEndNow :: "Env \<Rightarrow> App \<Rightarrow> App" where
  "handleAcceptIncomingEndNow env s =
     (case currentRoundId s of
        None \<Rightarrow> s
      | Some rid \<Rightarrow>
          if rid = [] then s
          else (sendMessage env (AcceptEndNow rid) (applyImmediateEndLocal env s))
                 \<lparr>infoMessage := Some YouAcceptedEndNow\<rparr>)"

definition handleRejectIncomingEndNow :: "Env \<Rightarrow> App \<Rightarrow> App" where
  "handleRejectIncomingEndNow env s =
     (case currentRoundId s of
        None \<Rightarrow> s
      | Some rid \<Rightarrow>
          if rid = [] then s
          else (sendMessage env (RejectEndNow rid) (s\<lparr>incomingEndNow := False\<rparr>))
                 \<lparr>infoMessage := Some YouRejectedEndNow\<rparr>)"

definition handleSelectRole :: "Role \<Rightarrow> App \<Rightarrow> App" where
  "handleSelectRole nextRole s =
     (if roleLocked s \<and> lockedRole s \<noteq> None \<and> lockedRole s \<noteq> Some nextRole
      then s\<lparr>roleSyncMessage := Some RoleAlreadyLocked\<rparr>
      else s\<lparr>lockedRole := Some nextRole, roleLocked := True,
             roleSyncMessage := Some (RoleLockedAs nextRole)\<rparr>)"

definition handleVote :: "Env \<Rightarrow> App \<Rightarrow> App" where
  "handleVote env s =
     (if historyViewSnapshot s \<noteq> None then s\<lparr>error := Some ErrHistoryReadOnlyVote\<rparr>
      else case lockedRole s of
        None \<Rightarrow> s\<lparr>error := Some ErrRoleNotLockedVote\<rparr>
      | Some role \<Rightarrow>
          if connectionStatus s \<noteq> Connected then s\<lparr>error := Some ErrNotConnectedVote\<rparr>
          else (case (startTimeSec s, currentRoundId s) of
            (Some startSec, Some rid) \<Rightarrow>
              if gameState s \<noteq> Running \<or> startSec = 0 \<or> rid = []
              then s\<lparr>error := Some ErrNotRunningVote\<rparr>
              else
                (let nowSec = nowSecOf env;
                     el = max 0 (jsMinus nowSec startSec);
                     tgt = otherRole role
                 in sendMessage env (Vote rid tgt el) (applyVote tgt el s))
          | _ \<Rightarrow> s\<lparr>error := Some ErrNotRunningVote\<rparr>))"

section \<open>Connection events\<close>

definition createPeerConnection :: "ConnectionMode \<Rightarrow> App \<Rightarrow> App" where
  \<comment> \<open>closes the old channel; the initiating side creates its channel at once, the
      answering side forgets its session and waits for the channel to arrive\<close>
  "createPeerConnection mode s =
     (let s1 = s\<lparr>dataChannelRef := None, error := None\<rparr>
      in if mode = Offer then s1\<lparr>dataChannelRef := Some Connecting\<rparr>
         else resetSessionAndRolesForNewAnswerJoin s1)"

datatype AnswerOutcome = AnswerCreated | NoOfferPasted | AnswerFailed

definition handleCreateOffer :: "bool \<Rightarrow> App \<Rightarrow> App" where
  \<comment> \<open>the \<open>bool\<close>: whether the offer could be created\<close>
  "handleCreateOffer ok s =
     (let s1 = createPeerConnection Offer
                 (s\<lparr>connectionMode := Offer, connectionStatus := CreatingOffer\<rparr>)
      in if ok then s1 else s1\<lparr>connectionStatus := StatusError, error := Some ErrOfferFailed\<rparr>)"

definition handleApplyOfferAndCreateAnswer :: "AnswerOutcome \<Rightarrow> App \<Rightarrow> App" where
  \<comment> \<open>the outcome: an answer was created, no offer had been pasted, or applying the
      offer failed\<close>
  "handleApplyOfferAndCreateAnswer outcome s =
     (let s1 = createPeerConnection Answer
                 (resetSessionAndRolesForNewAnswerJoin (s\<lparr>connectionMode := Answer\<rparr>))
      in case outcome of
           AnswerCreated \<Rightarrow> s1\<lparr>connectionStatus := WaitingAnswer\<rparr>
         | NoOfferPasted \<Rightarrow> s1\<lparr>error := Some ErrPasteOfferFirst\<rparr>
         | AnswerFailed \<Rightarrow> s1\<lparr>connectionStatus := StatusError, error := Some ErrAnswerFailed\<rparr>)"

definition onDataChannel :: "App \<Rightarrow> App" where
  \<comment> \<open>\<open>pc.ondatachannel\<close> on the answering side\<close>
  "onDataChannel s = s\<lparr>dataChannelRef := Some Connecting\<rparr>"

definition onChannelOpen :: "App \<Rightarrow> App" where
  \<comment> \<open>a channel opens once, from \<open>connecting\<close>\<close>
  "onChannelOpen s =
     (if dataChannelRef s = Some Connecting
      then s\<lparr>dataChannelRef := Some Open, connectionStatus := Connected, error := None\<rparr>
      else s)"

definition onChannelClose :: "App \<Rightarrow> App" where
  "onChannelClose s = (if dataChannelRef s = None then s else s\<lparr>dataChannelRef := Some Closed\<rparr>)"

definition onChannelError :: "App \<Rightarrow> App" where
  "onChannelError s = s\<lparr>connectionStatus := StatusError, error := Some ErrChannelError\<rparr>"

definition onPeerConnected :: "App \<Rightarrow> App" where
  \<comment> \<open>\<open>pc.onconnectionstatechange\<close> with state \<open>connected\<close>\<close>
  "onPeerConnected s = s\<lparr>connectionStatus := Connected\<rparr>"

definition onPeerFailed :: "bool \<Rightarrow> App \<Rightarrow> App" where
  \<comment> \<open>state \<open>failed\<close> or \<open>disconnected\<close>, reported by the ICE handler (\<open>True\<close>) or by
      the connection handler\<close>
  "onPeerFailed ice s =
     s\<lparr>connectionStatus := StatusError,
       error := Some (if ice then ErrIceProblem else ErrConnectionInterrupted)\<rparr>"

definition cleanupConnection :: "Env \<Rightarrow> App \<Rightarrow> App" where
  "cleanupConnection env s =
     (let s1 = s\<lparr>timerRef := False, dataChannelRef := None, connectionStatus := StatusIdle\<rparr>
      in clearSessionAndRoles (resetGameState env s1))"

section \<open>Events\<close>

text \<open>
  Every handler, timer callback and effect body runs to completion before the next
  one starts, so a run of the component is a sequence of events, each applied to the
  state the one before it left. A handler that closes over state variables is taken
  to see the values of the latest render; the callback of the round timer gets the end
  time it captured as the argument of its event. The effects are events of their own,
  so the ref cells may lag behind the state variables they mirror. The two effects that
  run once when the component mounts (reading the stored history index, resuming a
  stored round) precede every event and are not among them, and the switching between
  history tabs is represented by the loading and the leaving of a stored round.
\<close>

datatype Event =
    Receive Message
  | IntervalTick int
  | RetryTimeout
  | NoticeTimeout
  | SyncRef MirroredRef
  | RoundTimerEffect
  | PersistEffect
  | RoundEndedEffect
  | AssignRolesEffect
  | SnapshotPushEffect
  | ClickStartGame "int option" string
  | ClickVote
  | ClickProposeEndChange "int option"
  | ClickProposeEndNow
  | ClickAcceptEndChange
  | ClickRejectEndChange
  | ClickAcceptEndNow
  | ClickRejectEndNow
  | ClickSelectRole Role
  | ClickStartNewRound
  | ClickDiscardFromBanner
  | ClickDiscardFromStats
  | ClickDeleteHistoryGame string bool
  | ClickLoadHistoryGame string
  | ClickExitHistoryView
  | ClickChangeConnectionMode ConnectionMode
  | ClickCreateOffer bool
  | ClickApplyOfferAndCreateAnswer AnswerOutcome
  | DataChannelArrived
  | ChannelOpened
  | ChannelClosed
  | ChannelErrored
  | PeerConnected
  | PeerFailed bool
  | Unmount

definition step :: "Env \<Rightarrow> Event \<Rightarrow> App \<Rightarrow> App" where
  "step env e s =
     (case e of
        Receive msg \<Rightarrow> handleIncomingMessage env msg s
      | IntervalTick endSec \<Rightarrow> (if timerRef s then updateRemaining env endSec s else s)
      | RetryTimeout \<Rightarrow> retryTimeout env s
      | NoticeTimeout \<Rightarrow> s\<lparr>roleAssignmentNotice := None\<rparr>
      | SyncRef c \<Rightarrow> syncRef c s
      | RoundTimerEffect \<Rightarrow> roundTimerEffect env s
      | PersistEffect \<Rightarrow> persistEffect env s
      | RoundEndedEffect \<Rightarrow> roundEndedEffect env s
      | AssignRolesEffect \<Rightarrow> assignRolesEffect env s
      | SnapshotPushEffect \<Rightarrow> snapshotPushEffect env s
      | ClickStartGame endTimeUnix gameId \<Rightarrow> handleStartGame env endTimeUnix gameId s
      | ClickVote \<Rightarrow> handleVote env s
      | ClickProposeEndChange proposedUnix \<Rightarrow> handleProposeEndChange env proposedUnix s
      | ClickProposeEndNow \<Rightarrow> handleProposeEndNow env s
      | ClickAcceptEndChange \<Rightarrow> handleAcceptIncomingEndChange env s
      | ClickRejectEndChange \<Rightarrow> handleRejectIncomingEndChange env s
      | ClickAcceptEndNow \<Rightarrow> handleAcceptIncomingEndNow env s
      | ClickRejectEndNow \<Rightarrow> handleRejectIncomingEndNow env s
      | ClickSelectRole r \<Rightarrow> handleSelectRole r s
      | ClickStartNewRound \<Rightarrow> handleStartNewRound env s
      | ClickDiscardFromBanner \<Rightarrow> handleDiscardSnapshotFromBanner env s
      | ClickDiscardFromStats \<Rightarrow> handleDiscardSnapshotFromStats env s
      | ClickDeleteHistoryGame gid onDisplay \<Rightarrow> handleDeleteHistoryGame env gid onDisplay s
      | ClickLoadHistoryGame gid \<Rightarrow> handleLoadHistoryGame gid s
      | ClickExitHistoryView \<Rightarrow> handleExitHistoryView s
      | ClickChangeConnectionMode mode \<Rightarrow> s\<lparr>connectionMode := mode, error := None\<rparr>
      | ClickCreateOffer ok \<Rightarrow> handleCreateOffer ok s
      | ClickApplyOfferAndCreateAnswer outcome \<Rightarrow> handleApplyOfferAndCreateAnswer outcome s
      | DataChannelArrived \<Rightarrow> onDataChannel s
      | ChannelOpened \<Rightarrow> onChannelOpen s
      | ChannelClosed \<Rightarrow> onChannelClose s
      | ChannelErrored \<Rightarrow> onChannelError s
      | PeerConnected \<Rightarrow> onPeerConnected s
      | PeerFailed ice \<Rightarrow> onPeerFailed ice s
      | Unmount \<Rightarrow> cleanupConnection env s)"

fun run :: "(Env \<times> Event) list \<Rightarrow> App \<Rightarrow> App" where
  \<comment> \<open>a sequence of events, each with the environment it meets\<close>
  "run [] s = s"
| "run ((env, e) # es) s = run es (step env e s)"

definition initialApp :: App where
  \<comment> \<open>the initial values of the hooks, an empty local store, nothing sent or logged\<close>
  "initialApp =
     \<lparr>lockedRole = None, roleLocked = False, sessionId = None, roleSyncMessage = None,
      connectionMode = Offer, connectionStatus = StatusIdle, error = None, gameState = Idle,
      currentRoundId = None, currentGameId = None, storedGameIdHint = None,
      offlineSnapshotMode = False, snapshotMeta = None, historyIndex = [],
      historyViewSnapshot = None, startTimeSec = None, endTimeSec = None,
      resolvedEndTimeSec = None, timeRemaining = 0, scores = \<lparr>red = 0, blue = 0\<rparr>,
      voteEvents = [], incomingEndChange = None, incomingEndNow = False, infoMessage = None,
      rolesConfirmed = False, sessionRoles = None, voteIgnoreMessage = None,
      roleAssignmentNotice = None, dataChannelRef = None, timerRef = False,
      currentRoundIdRef = None, sessionIdRef = None, lockedRoleRef = None,
      connectionModeRef = Offer, hasSentAssignRolesRef = False, snapshotVersionRef = 0,
      hasSentStateSnapshotRef = False, assignRolesRetryCountRef = 0,
      assignRolesRetryTimerRef = False, rolesConfirmedRef = False, sessionRolesRef = None,
      localStorage = Map.empty, outbox = [], console = []\<rparr>"

definition envAt :: "int \<Rightarrow> Env" where
  \<comment> \<open>an environment whose clock reads the given second, with a working store and channel\<close>
  "envAt sec = \<lparr>nowMs = sec * 1000, storageOk = True, sendOk = True, freshSessionId = ''s-1''\<rparr>"

section \<open>Example states\<close>

definition runningApp :: App where
  \<comment> \<open>an answering peer that received the start of round r1 at second 1000\<close>
  "runningApp =
     syncRef RoleCell
       (handleIncomingMessage (envAt 1000)
          (Start ''r1'' (Whole 1600) (Some \<lparr>hostRole = Red, guestRole = Blue\<rparr>))
          (initialApp\<lparr>connectionMode := Answer, connectionModeRef := Answer\<rparr>))"

definition endedApp :: App where
  \<comment> \<open>the same peer after its timer found the round over\<close>
  "endedApp = updateRemaining (envAt 1700) 1600 runningApp"

definition snapshotOfR1 :: GameSnapshot where
  "snapshotOfR1 =
     \<lparr>snapVersion = 3, snapLastUpdatedAt = 1500000, snapGameId = ''r1'',
      snapSessionId = Some ''s-1'', snapIsHost = True, snapLockedRole = Red,
      snapStartTimeSec = 1000, snapEndTimeSec = 1600, snapGameState = Running,
      snapScoreRed = 2, snapScoreBlue = 1,
      snapEvents = [\<lparr>at = 3, evTarget = Red\<rparr>, \<lparr>at = 5, evTarget = Blue\<rparr>,
                    \<lparr>at = 9, evTarget = Red\<rparr>]\<rparr>"

definition saturatedApp :: App where
  \<comment> \<open>the same peer after it adopted a snapshot of its round whose version is \<open>2 ^ 53\<close>
      and which counts \<open>2 ^ 53\<close> votes for its side\<close>
  "saturatedApp =
     handleIncomingMessage (envAt 1200)
       (StateSnapshot ''r1''
          (snapshotOfR1\<lparr>snapVersion := 2 ^ 53, snapLockedRole := Blue, snapScoreBlue := 2 ^ 53\<rparr>))
       runningApp"

definition secondZeroApp :: App where
  \<comment> \<open>an answering peer that received the start of round r1 while its clock read second 0\<close>
  "secondZeroApp =
     syncRef RoleCell
       (handleIncomingMessage (envAt 0)
          (Start ''r1'' (Whole 600) (Some \<lparr>hostRole = Red, guestRole = Blue\<rparr>))
          (initialApp\<lparr>connectionMode := Answer, connectionModeRef := Answer\<rparr>))"

section \<open>Notions used in the statements\<close>

fun persistTimes :: "Env list \<Rightarrow> App \<Rightarrow> GameSnapshot option list \<times> App" where
  \<comment> \<open>\<open>persistSnapshot\<close> called once per environment, in succession; the results in order\<close>
  "persistTimes [] s = ([], s)"
| "persistTimes (env # envs) s =
     (case persistSnapshot env s of
        (r, s1) \<Rightarrow> (case persistTimes envs s1 of (rs, s2) \<Rightarrow> (r # rs, s2)))"

definition snapshotReady :: "App \<Rightarrow> bool" where
  \<comment> \<open>a started round of a peer with a locked role: what \<open>buildSnapshotFromState\<close> asks for\<close>
  "snapshotReady s =
     (truthyStr (currentRoundId s) \<and> truthyNum (startTimeSec s) \<and> truthyNum (endTimeSec s)
      \<and> lockedRole s \<noteq> None \<and> gameState s \<noteq> Idle)"

datatype HistoryOp = Upsert GameSnapshot | Remove string bool

definition historyOp :: "Env \<Rightarrow> HistoryOp \<Rightarrow> App \<Rightarrow> App" where
  "historyOp env op s =
     (case op of
        Upsert snapshot \<Rightarrow> upsertHistoryIndex env snapshot s
      | Remove gid onDisplay \<Rightarrow> handleDeleteHistoryGame env gid onDisplay s)"

fun historyOps :: "(Env \<times> HistoryOp) list \<Rightarrow> App \<Rightarrow> App" where
  "historyOps [] s = s"
| "historyOps ((env, op) # ops) s = historyOps ops (historyOp env op s)"

definition historyOrdered :: "HistoryIndexEntry \<Rightarrow> HistoryIndexEntry \<Rightarrow> bool" where
  \<comment> \<open>\<open>a\<close> may stand before \<open>b\<close>: later end time first, on a tie later update first\<close>
  "historyOrdered a b =
     (hEndTimeSec a > hEndTimeSec b
      \<or> (hEndTimeSec a = hEndTimeSec b \<and> hLastUpdatedAt a \<ge> hLastUpdatedAt b))"

definition historyInvariant :: "HistoryIndexEntry list \<Rightarrow> bool" where
  "historyInvariant idx = (sorted_wrt historyOrdered idx \<and> distinct (map hGameId idx))"

definition endedSnapshot :: "string \<Rightarrow> int \<Rightarrow> int \<Rightarrow> GameSnapshot" where
  \<comment> \<open>an example snapshot of an ended round\<close>
  "endedSnapshot gid endSec updated =
     snapshotOfR1\<lparr>snapGameId := gid, snapEndTimeSec := endSec, snapGameState := Ended,
                  snapLastUpdatedAt := updated\<rparr>"

definition stateRank :: "GameState \<Rightarrow> nat" where
  \<comment> \<open>the order of the life of a round\<close>
  "stateRank g = (case g of Idle \<Rightarrow> 0 | Running \<Rightarrow> 1 | Ended \<Rightarrow> 2)"

definition adoptsOrRestarts :: "Event \<Rightarrow> string \<Rightarrow> bool" where
  \<comment> \<open>the events that put a whole round in place of round \<open>r\<close> under the same id: a
      received snapshot of round \<open>r\<close>, and a start, received or local, that carries
      the id \<open>r\<close> again\<close>
  "adoptsOrRestarts e r =
     (case e of
        Receive (StateSnapshot x payload) \<Rightarrow> snapGameId payload = r
      | Receive (Start roundId endTime roles) \<Rightarrow> roundId = r
      | ClickStartGame endTimeUnix gameId \<Rightarrow> gameId = r
      | _ \<Rightarrow> False)"

definition roundInvariant :: "App \<Rightarrow> bool" where
  \<comment> \<open>a round that is not idle has both times, the end after the start\<close>
  "roundInvariant s =
     (if gameState s = Idle then True
      else case (startTimeSec s, endTimeSec s) of
             (Some startSec, Some endSec) \<Rightarrow> startSec < endSec
           | _ \<Rightarrow> False)"

definition timerInvariant :: "App \<Rightarrow> bool" where
  \<comment> \<open>the round timer is pending only for a started round\<close>
  "timerInvariant s = (if timerRef s then gameState s \<noteq> Idle else True)"

definition afterStart :: "int \<Rightarrow> App \<Rightarrow> bool" where
  \<comment> \<open>the second \<open>t\<close> is after the start of the round\<close>
  "afterStart t s = (case startTimeSec s of None \<Rightarrow> False | Some startSec \<Rightarrow> startSec < t)"

definition forCurrentRound :: "string \<Rightarrow> App \<Rightarrow> bool" where
  \<comment> \<open>the test that lets a negotiation message through: it names the current round\<close>
  "forCurrentRound roundId s = (truthyStr (currentRoundIdRef s) \<and> currentRoundIdRef s = Some roundId)"

definition adoptsSnapshot :: "GameSnapshot \<Rightarrow> App \<Rightarrow> bool" where
  \<comment> \<open>the two tests a received snapshot passes before it is adopted\<close>
  "adoptsSnapshot payload s =
     (snapGameId payload \<noteq> []
      \<and> (if truthyStr (currentRoundIdRef s) then currentRoundIdRef s = Some (snapGameId payload)
          else True))"

definition keepsEndAfterStart :: "Env \<Rightarrow> Event \<Rightarrow> App \<Rightarrow> bool" where
  \<comment> \<open>what the events that write an end time without a check of their own need, when
      they apply: an accepted end time after the start, an immediate end in a later
      second than the start, an adopted snapshot of a started round with its end after
      its start\<close>
  "keepsEndAfterStart env e s =
     (case e of
        Receive (AcceptEndChange roundId proposedEndTime) \<Rightarrow>
          (if forCurrentRound roundId s then afterStart proposedEndTime s else True)
      | Receive (AcceptEndNow roundId) \<Rightarrow>
          (if forCurrentRound roundId s then afterStart (nowSecOf env) s else True)
      | Receive (StateSnapshot x payload) \<Rightarrow>
          (if adoptsSnapshot payload s
           then snapGameState payload \<noteq> Idle \<and> snapStartTimeSec payload < snapEndTimeSec payload
           else True)
      | ClickAcceptEndChange \<Rightarrow>
          (case incomingEndChange s of
             None \<Rightarrow> True
           | Some proposed \<Rightarrow> if truthyStr (currentRoundId s) then afterStart proposed s else True)
      | ClickAcceptEndNow \<Rightarrow>
          (if truthyStr (currentRoundId s) then afterStart (nowSecOf env) s else True)
      | _ \<Rightarrow> True)"

definition roundFields :: "App \<Rightarrow> GameState \<times> string option \<times> int option \<times> int option \<times> bool" where
  \<comment> \<open>the part of the state that the statements about the life of a round read\<close>
  "roundFields s = (gameState s, currentRoundId s, startTimeSec s, endTimeSec s, timerRef s)"

definition touchesRound :: "Event \<Rightarrow> bool" where
  \<comment> \<open>the events whose handlers write one of \<open>roundFields\<close>\<close>
  "touchesRound e =
     (case e of
        Receive (Start roundId endTime roles) \<Rightarrow> True
      | Receive (StateSnapshot x payload) \<Rightarrow> True
      | Receive (AcceptEndChange roundId proposedEndTime) \<Rightarrow> True
      | Receive (AcceptEndNow roundId) \<Rightarrow> True
      | IntervalTick endSec \<Rightarrow> True
      | RoundTimerEffect \<Rightarrow> True
      | ClickStartGame endTimeUnix gameId \<Rightarrow> True
      | ClickAcceptEndChange \<Rightarrow> True
      | ClickAcceptEndNow \<Rightarrow> True
      | ClickStartNewRound \<Rightarrow> True
      | ClickDiscardFromBanner \<Rightarrow> True
      | Unmount \<Rightarrow> True
      | _ \<Rightarrow> False)"

fun allKeepEndAfterStart :: "(Env \<times> Event) list \<Rightarrow> App \<Rightarrow> bool" where
  \<comment> \<open>every event of the run meets \<open>keepsEndAfterStart\<close> in the state it finds\<close>
  "allKeepEndAfterStart [] s = True"
| "allKeepEndAfterStart ((env, e) # es) s =
     (keepsEndAfterStart env e s \<and> allKeepEndAfterStart es (step env e s))"

definition isAssignRoles :: "Message \<Rightarrow> bool" where
  "isAssignRoles m = (case m of AssignRoles sid hostR guestR \<Rightarrow> True | _ \<Rightarrow> False)"

definition assignRolesSent :: "App \<Rightarrow> nat" where
  \<comment> \<open>how many \<open>assignRoles\<close> messages the peer has handed to the channel so far\<close>
  "assignRolesSent s = length (filter isAssignRoles (outbox s))"

definition endsAttempt :: "Event \<Rightarrow> App \<Rightarrow> bool" where
  \<comment> \<open>the events that set the retry counter back to zero, after which the effect may
      send a first \<open>assignRoles\<close> again: the effect itself when it finds the peer not
      connected, a new round, joining as the answering side, and the teardown\<close>
  "endsAttempt e s =
     (case e of
        AssignRolesEffect \<Rightarrow> connectionStatus s \<noteq> Connected
      | ClickStartNewRound \<Rightarrow> True
      | ClickApplyOfferAndCreateAnswer outcome \<Rightarrow> True
      | Unmount \<Rightarrow> True
      | _ \<Rightarrow> False)"

fun withinAttempt :: "(Env \<times> Event) list \<Rightarrow> App \<Rightarrow> bool" where
  \<comment> \<open>no event of the run ends the attempt\<close>
  "withinAttempt [] s = True"
| "withinAttempt ((env, e) # es) s = (\<not> endsAttempt e s \<and> withinAttempt es (step env e s))"

definition installsChannel :: "Event \<Rightarrow> bool" where
  \<comment> \<open>the events that put a fresh channel in place of the old one\<close>
  "installsChannel e =
     (case e of ClickCreateOffer ok \<Rightarrow> True | DataChannelArrived \<Rightarrow> True | _ \<Rightarrow> False)"

fun noNewChannel :: "(Env \<times> Event) list \<Rightarrow> bool" where
  "noNewChannel [] = True"
| "noNewChannel ((env, e) # es) = (\<not> installsChannel e \<and> noNewChannel es)"

definition channelGone :: "App \<Rightarrow> bool" where
  \<comment> \<open>there is no channel, or it is closing or closed\<close>
  "channelGone s =
     (case dataChannelRef s of None \<Rightarrow> True | Some rs \<Rightarrow> rs = Closing \<or> rs = Closed)"

definition retryFields :: "App \<Rightarrow> int \<times> bool \<times> bool \<times> ReadyState option \<times> nat" where
  \<comment> \<open>the part of the state that the statements about the retries read\<close>
  "retryFields s =
     (assignRolesRetryCountRef s, hasSentAssignRolesRef s, assignRolesRetryTimerRef s,
      dataChannelRef s, assignRolesSent s)"

definition touchesRetry :: "Event \<Rightarrow> bool" where
  \<comment> \<open>the events whose handlers write one of \<open>retryFields\<close>\<close>
  "touchesRetry e =
     (case e of
        Receive (AssignRolesAck sid role) \<Rightarrow> True
      | RetryTimeout \<Rightarrow> True
      | AssignRolesEffect \<Rightarrow> True
      | ClickStartNewRound \<Rightarrow> True
      | ClickCreateOffer ok \<Rightarrow> True
      | ClickApplyOfferAndCreateAnswer outcome \<Rightarrow> True
      | DataChannelArrived \<Rightarrow> True
      | ChannelOpened \<Rightarrow> True
      | ChannelClosed \<Rightarrow> True
      | Unmount \<Rightarrow> True
      | _ \<Rightarrow> False)"

definition attemptInvariant :: "nat \<Rightarrow> App \<Rightarrow> bool" where
  \<comment> \<open>inside an attempt that began after \<open>base\<close> earlier sends: the counter counts the
      sends of the attempt and is between 1 and 3\<close>
  "attemptInvariant base s =
     (hasSentAssignRolesRef s \<and> 1 \<le> assignRolesRetryCountRef s \<and> assignRolesRetryCountRef s \<le> 3
      \<and> int (assignRolesSent s) = int base + assignRolesRetryCountRef s)"

definition hostReady :: App where
  \<comment> \<open>an initiating peer, connected over an open channel, that chose the red side\<close>
  "hostReady =
     initialApp\<lparr>lockedRole := Some Red, roleLocked := True, connectionStatus := Connected,
                dataChannelRef := Some Open\<rparr>"

section \<open>Double arithmetic on whole numbers\<close>

lemma bitLength_le: "n < 2 ^ k \<Longrightarrow> bitLength n \<le> k"
proof (induction k arbitrary: n)
  case 0
  then show ?case by (simp add: bitLength.simps [of 0])
next
  case (Suc k)
  show ?case
  proof (cases "n = 0")
    case True
    then show ?thesis by (simp add: bitLength.simps [of 0])
  next
    case False
    from Suc.prems have "n div 2 < 2 ^ k" by simp
    then have "bitLength (n div 2) \<le> k" by (rule Suc.IH)
    with False show ?thesis by (simp add: bitLength.simps [of n])
  qed
qed

lemma bitLength_gt: "2 ^ k \<le> n \<Longrightarrow> k < bitLength n"
proof (induction k arbitrary: n)
  case 0
  then show ?case by (simp add: bitLength.simps [of n])
next
  case (Suc k)
  have "0 < (2::nat) ^ Suc k" by simp
  with Suc.prems have "n \<noteq> 0" by linarith
  from Suc.prems have "2 ^ k \<le> n div 2" by simp
  then have "k < bitLength (n div 2)" by (rule Suc.IH)
  with \<open>n \<noteq> 0\<close> show ?case by (simp add: bitLength.simps [of n])
qed

lemma bitLength_lower: "0 < bitLength n \<Longrightarrow> 2 ^ (bitLength n - 1) \<le> n"
proof (rule ccontr)
  assume pos: "0 < bitLength n" and "\<not> 2 ^ (bitLength n - 1) \<le> n"
  then have "n < 2 ^ (bitLength n - 1)" by simp
  then have "bitLength n \<le> bitLength n - 1" by (rule bitLength_le)
  with pos show False by simp
qed

lemma bitLength_between: "2 ^ k \<le> m \<Longrightarrow> m < 2 ^ Suc k \<Longrightarrow> bitLength m = Suc k"
proof -
  assume lo: "2 ^ k \<le> m" and hi: "m < 2 ^ Suc k"
  from hi have "bitLength m \<le> Suc k" by (rule bitLength_le)
  moreover from lo have "k < bitLength m" by (rule bitLength_gt)
  ultimately show ?thesis by simp
qed

lemma roundToDouble_small: "bitLength (nat \<bar>v\<bar>) \<le> 53 \<Longrightarrow> roundToDouble v = v"
  by (simp add: roundToDouble_def Let_def)

lemma roundToDouble_at_54:
  assumes "bitLength (nat \<bar>v\<bar>) = 54"
  shows "roundToDouble v =
           sgn v * int ((if nat \<bar>v\<bar> mod 2 < 1 then nat \<bar>v\<bar> div 2
                         else if even (nat \<bar>v\<bar> div 2) then nat \<bar>v\<bar> div 2
                         else nat \<bar>v\<bar> div 2 + 1) * 2)"
  using assms by (simp add: roundToDouble_def Let_def)

lemma roundToDouble_exact: "\<bar>v\<bar> \<le> 2 ^ 53 \<Longrightarrow> roundToDouble v = v"
proof -
  assume le: "\<bar>v\<bar> \<le> 2 ^ 53"
  show ?thesis
  proof (cases "\<bar>v\<bar> = 2 ^ 53")
    case False
    with le have "nat \<bar>v\<bar> < 2 ^ 53" by simp
    then have "bitLength (nat \<bar>v\<bar>) \<le> 53" by (rule bitLength_le)
    then show ?thesis by (rule roundToDouble_small)
  next
    case True
    then have m: "nat \<bar>v\<bar> = 2 ^ 53" by simp
    have "bitLength (nat \<bar>v\<bar>) = Suc 53" by (rule bitLength_between) (simp_all only: m, simp_all)
    then have "bitLength (nat \<bar>v\<bar>) = 54" by simp
    then have "roundToDouble v = sgn v * int ((if nat \<bar>v\<bar> mod 2 < 1 then nat \<bar>v\<bar> div 2
                         else if even (nat \<bar>v\<bar> div 2) then nat \<bar>v\<bar> div 2
                         else nat \<bar>v\<bar> div 2 + 1) * 2)"
      by (rule roundToDouble_at_54)
    also have "\<dots> = sgn v * int (nat \<bar>v\<bar>)" unfolding m by simp
    also have "\<dots> = v" by (simp add: sgn_if)
    finally show ?thesis .
  qed
qed

lemma roundToDouble_sgn: "sgn (roundToDouble v) = sgn v"
proof (cases "bitLength (nat \<bar>v\<bar>) \<le> 53")
  case True
  then show ?thesis by (simp add: roundToDouble_small)
next
  case False
  define m where "m = nat \<bar>v\<bar>"
  define u :: nat where "u = 2 ^ (bitLength m - 53)"
  from False have len: "53 < bitLength m" by (simp add: m_def)
  then have "2 ^ (bitLength m - 1) \<le> m" by (intro bitLength_lower) simp
  moreover have "u \<le> 2 ^ (bitLength m - 1)"
    unfolding u_def by (rule power_increasing) simp_all
  ultimately have "u \<le> m" by simp
  moreover have "0 < u" by (simp add: u_def)
  ultimately have q: "0 < m div u" by (simp add: div_greater_zero_iff)
  define q1 where "q1 = (if m mod u < u div 2 then m div u
                      else if u div 2 < m mod u then m div u + 1
                      else if even (m div u) then m div u else m div u + 1)"
  from q have "0 < q1" by (simp add: q1_def)
  with \<open>0 < u\<close> have "0 < q1 * u" by simp
  then have pos: "sgn (int (q1 * u)) = 1" by (simp only: sgn_1_pos of_nat_0_less_iff)
  have "roundToDouble v = sgn v * int (q1 * u)"
    using False by (simp add: roundToDouble_def Let_def m_def [symmetric] u_def [symmetric] q1_def)
  then have "sgn (roundToDouble v) = sgn (sgn v) * sgn (int (q1 * u))" by (simp only: sgn_mult)
  then show ?thesis by (simp only: pos sgn_sgn mult_1_right)
qed

lemma roundToDouble_sign [simp]:
  "(roundToDouble v \<le> 0) = (v \<le> 0)"
  "(0 < roundToDouble v) = (0 < v)"
  "(0 \<le> roundToDouble v) = (0 \<le> v)"
  "(roundToDouble v < 0) = (v < 0)"
  "(roundToDouble v = 0) = (v = 0)"
  using roundToDouble_sgn [of v] by (simp_all add: sgn_if split: if_splits)

lemma jsMinus_sign [simp]:
  "(jsMinus a b \<le> 0) = (a \<le> b)"
  "(0 < jsMinus a b) = (b < a)"
  "(0 \<le> jsMinus a b) = (b \<le> a)"
  "(jsMinus a b < 0) = (a < b)"
  by (simp_all add: jsMinus_def)

lemma jsMinus_exact: "\<bar>a - b\<bar> \<le> 2 ^ 53 \<Longrightarrow> jsMinus a b = a - b"
  by (simp add: jsMinus_def roundToDouble_exact)

lemma jsPlus_exact: "\<bar>a + b\<bar> \<le> 2 ^ 53 \<Longrightarrow> jsPlus a b = a + b"
  by (simp add: jsPlus_def roundToDouble_exact)

lemma jsPlus_one_stalls: "jsPlus (2 ^ 53) 1 = 2 ^ 53"
proof -
  have "bitLength (nat \<bar>9007199254740993\<bar>) = Suc 53" by (rule bitLength_between) simp_all
  then have len: "bitLength (nat \<bar>9007199254740993\<bar>) = 54" by simp
  have "roundToDouble 9007199254740993 = 9007199254740992"
    unfolding roundToDouble_at_54 [OF len] by simp
  then show ?thesis by (simp add: jsPlus_def)
qed

lemma jsMinus_rounds: "jsMinus (2 ^ 54 + 4) 1 = 2 ^ 54 + 4"
proof -
  have "bitLength 18014398509481987 = Suc 54" by (rule bitLength_between) simp_all
  then have len: "bitLength 18014398509481987 = 55" by simp
  have "roundToDouble 18014398509481987 = 18014398509481988"
    by (simp add: roundToDouble_def Let_def len)
  then show ?thesis by (simp add: jsMinus_def)
qed

section \<open>Facts about the example states\<close>

lemma runningApp_fields:
  "currentRoundId runningApp = Some ''r1''"
  "currentRoundIdRef runningApp = Some ''r1''"
  "gameState runningApp = Running"
  "lockedRole runningApp = Some Blue"
  "lockedRoleRef runningApp = Some Blue"
  "scores runningApp = \<lparr>red = 0, blue = 0\<rparr>"
  "voteEvents runningApp = []"
  "startTimeSec runningApp = Some 1000"
  "endTimeSec runningApp = Some 1600"
  "snapshotVersionRef runningApp = 0"
  "sessionId runningApp = None"
  "sessionRolesRef runningApp = Some \<lparr>hostRole = Red, guestRole = Blue\<rparr>"
  "connectionModeRef runningApp = Answer"
  "historyViewSnapshot runningApp = None"
  "outbox runningApp = []"
  "console runningApp = []"
  by (simp_all add: runningApp_def handleIncomingMessage_def Let_def envAt_def nowSecOf_def
      initialApp_def tryStorage_def setItem_def beginGameWithEndTime_def isFinite_def
      jsLessEq_def ensureRoleFromSessionRoles_def syncRef_def)

lemma endedApp_fields:
  "currentRoundId endedApp = Some ''r1''"
  "currentRoundIdRef endedApp = Some ''r1''"
  "gameState endedApp = Ended"
  "lockedRole endedApp = Some Blue"
  "lockedRoleRef endedApp = Some Blue"
  "scores endedApp = \<lparr>red = 0, blue = 0\<rparr>"
  "voteEvents endedApp = []"
  "startTimeSec endedApp = Some 1000"
  "endTimeSec endedApp = Some 1600"
  "outbox endedApp = []"
  by (simp_all add: endedApp_def updateRemaining_def Let_def envAt_def nowSecOf_def
      runningApp_fields)

lemma saturatedApp_fields:
  "currentRoundIdRef saturatedApp = Some ''r1''"
  "lockedRoleRef saturatedApp = Some Blue"
  "gameState saturatedApp = Running"
  "currentRoundId saturatedApp = Some ''r1''"
  "lockedRole saturatedApp = Some Blue"
  "startTimeSec saturatedApp = Some 1000"
  "endTimeSec saturatedApp = Some 1600"
  "snapshotVersionRef saturatedApp = 2 ^ 53"
  "scores saturatedApp = \<lparr>red = 2, blue = 2 ^ 53\<rparr>"
  "voteEvents saturatedApp =
     [\<lparr>target = Red, elapsed = 3\<rparr>, \<lparr>target = Blue, elapsed = 5\<rparr>, \<lparr>target = Red, elapsed = 9\<rparr>]"
  by (simp_all add: saturatedApp_def handleIncomingMessage_def truthyStr_def runningApp_fields
      hydrateStateFromSnapshot_def tryStorage_def snapshotOfR1_def Let_def)

lemma secondZeroApp_fields:
  "currentRoundId secondZeroApp = Some ''r1''"
  "gameState secondZeroApp = Running"
  "lockedRole secondZeroApp = Some Blue"
  "startTimeSec secondZeroApp = Some 0"
  "endTimeSec secondZeroApp = Some 600"
  by (simp_all add: secondZeroApp_def handleIncomingMessage_def Let_def envAt_def nowSecOf_def
      initialApp_def tryStorage_def setItem_def beginGameWithEndTime_def isFinite_def
      jsLessEq_def ensureRoleFromSessionRoles_def syncRef_def)

section \<open>Received start and vote messages\<close>

text \<open>
  Claim C1, amended. For every received \<open>start\<close> message whose \<open>endTime\<close> is a finite
  number (\<open>Whole endTime\<close>) strictly greater than the receiver's current time
  (\<open>nowSec\<close>, the clock in whole seconds), the state after the handler has run is
  \<open>Running\<close>, \<open>startTimeSec\<close> is the receiver's current time, \<open>endTimeSec\<close> is the
  message's, the remaining time is what the subtraction \<open>endTime - nowSec\<close> gives on
  doubles, which is the exact difference whenever that is at most \<open>2 ^ 53\<close>, both scores
  are zero, the vote log is empty and the current round id is the message's. This holds
  for every state, every round id, with or without roles in the message, and whether or
  not the local store accepts the write.
\<close>

theorem start_message_begins_round:
  assumes "nowSecOf env < endTime"
  shows "gameState (handleIncomingMessage env (Start roundId (Whole endTime) roles) s) = Running
       \<and> startTimeSec (handleIncomingMessage env (Start roundId (Whole endTime) roles) s) =
           Some (nowSecOf env)
       \<and> endTimeSec (handleIncomingMessage env (Start roundId (Whole endTime) roles) s) =
           Some endTime
       \<and> timeRemaining (handleIncomingMessage env (Start roundId (Whole endTime) roles) s) =
           jsMinus endTime (nowSecOf env)
       \<and> (endTime - nowSecOf env \<le> 2 ^ 53 \<longrightarrow>
            timeRemaining (handleIncomingMessage env (Start roundId (Whole endTime) roles) s) =
              endTime - nowSecOf env)
       \<and> scores (handleIncomingMessage env (Start roundId (Whole endTime) roles) s) =
           \<lparr>red = 0, blue = 0\<rparr>
       \<and> voteEvents (handleIncomingMessage env (Start roundId (Whole endTime) roles) s) = []
       \<and> currentRoundId (handleIncomingMessage env (Start roundId (Whole endTime) roles) s) =
           Some roundId"
proof -
  have exact: "jsMinus endTime (nowSecOf env) = endTime - nowSecOf env"
    if "endTime - nowSecOf env \<le> 2 ^ 53"
    using that assms by (intro jsMinus_exact) simp
  show ?thesis
    using assms exact
    by (simp add: handleIncomingMessage_def beginGameWithEndTime_def isFinite_def jsLessEq_def
        Let_def max_def)
qed

theorem start_message_begins_round_witness:
  "nowSecOf (envAt 1000) < 1600
   \<and> gameState (handleIncomingMessage (envAt 1000) (Start ''r1'' (Whole 1600) None) initialApp) =
       Running
   \<and> startTimeSec (handleIncomingMessage (envAt 1000) (Start ''r1'' (Whole 1600) None) initialApp) =
       Some 1000
   \<and> timeRemaining (handleIncomingMessage (envAt 1000) (Start ''r1'' (Whole 1600) None) initialApp) =
       600
   \<and> currentRoundId (handleIncomingMessage (envAt 1000) (Start ''r1'' (Whole 1600) None) initialApp) =
       Some ''r1''"
  using start_message_begins_round [of "envAt 1000" 1600 "''r1''" None initialApp]
  by (simp add: envAt_def nowSecOf_def)

text \<open>
  The claim as written fails for an \<open>endTime\<close> that is not a finite number: infinity
  is greater than the current time, yet the handler returns at once and the state stays
  idle. And for a finite end time so far away that the difference to the current time
  is not a double, the remaining time is the neighbouring double, not the difference.
\<close>

theorem start_with_infinite_end_counterexample:
  "jsGreater PosInfinity (nowSecOf (envAt 1000))
   \<and> handleIncomingMessage (envAt 1000) (Start ''r1'' PosInfinity None) initialApp = initialApp
   \<and> gameState initialApp = Idle
   \<and> currentRoundId initialApp = None
   \<and> nowSecOf (envAt 1) < 2 ^ 54 + 4
   \<and> timeRemaining (handleIncomingMessage (envAt 1) (Start ''r1'' (Whole (2 ^ 54 + 4)) None) initialApp)
       = 2 ^ 54 + 4
   \<and> 2 ^ 54 + 4 - nowSecOf (envAt 1) = 2 ^ 54 + 3"
proof -
  have rounds: "jsMinus 18014398509481988 1 = 18014398509481988"
    using jsMinus_rounds by simp
  show ?thesis
    by (simp add: jsGreater_def handleIncomingMessage_def beginGameWithEndTime_def isFinite_def
        jsLessEq_def Let_def envAt_def nowSecOf_def initialApp_def tryStorage_def rounds)
qed

text \<open>
  Claim C6. A received \<open>start\<close> message whose \<open>endTime\<close> is not after the current time
  (or is not a finite number at all), and a received \<open>vote\<close> message whose round id is
  not the current round id (the handler reads it from \<open>currentRoundIdRef\<close>), leave the
  whole state as it was: the handler returns before its first write.
\<close>

theorem stale_start_and_foreign_vote_ignored:
  "(\<not> isFinite endTime \<or> jsLessEq endTime (nowSecOf env) \<longrightarrow>
      handleIncomingMessage env (Start roundId endTime roles) s = s)
   \<and> (endWhole \<le> nowSecOf env \<longrightarrow>
        handleIncomingMessage env (Start roundId (Whole endWhole) roles) s = s)
   \<and> (currentRoundIdRef s \<noteq> Some voteRoundId \<longrightarrow>
        handleIncomingMessage env (Vote voteRoundId tgt atSec) s = s)"
  by (auto simp add: handleIncomingMessage_def jsLessEq_def Let_def)

theorem stale_start_and_foreign_vote_ignored_witness:
  "handleIncomingMessage (envAt 1700) (Start ''r2'' (Whole 1600) None) runningApp = runningApp
   \<and> handleIncomingMessage (envAt 1700) (Start ''r2'' NotANumber None) runningApp = runningApp
   \<and> handleIncomingMessage (envAt 1000) (Vote ''r9'' Blue 12) runningApp = runningApp"
  using stale_start_and_foreign_vote_ignored
    [where endTime = NotANumber and endWhole = 1600 and env = "envAt 1700" and roundId = "''r2''"
       and roles = None and s = runningApp and voteRoundId = "''r9''" and tgt = Blue and atSec = 12]
    stale_start_and_foreign_vote_ignored
    [where endTime = NotANumber and endWhole = 1600 and env = "envAt 1000" and roundId = "''r2''"
       and roles = None and s = runningApp and voteRoundId = "''r9''" and tgt = Blue and atSec = 12]
  by (simp add: envAt_def nowSecOf_def runningApp_fields isFinite_def)

text \<open>
  Claim C7. A received \<open>vote\<close> for the current round (a round with a non-empty id)
  whose target is not the receiver's locked role (as the handler reads it, from
  \<open>lockedRoleRef\<close>) is rejected: the scores and the vote log stay as they were, the
  notice \<open>RoleAutoCorrectedRetry\<close> is shown, a warning is logged, and the role is
  resynchronised from the stored session roles: \<open>ensureRoleFromSessionRoles\<close> runs,
  which sets the locked role to the side's role of the stored pair, and does nothing
  when no pair is stored.
\<close>

theorem mistargeted_vote_rejected:
  assumes "roundId \<noteq> []" and "currentRoundIdRef s = Some roundId"
    and "lockedRoleRef s = Some mine" and "tgt \<noteq> mine"
  shows "handleIncomingMessage env (Vote roundId tgt atSec) s =
           ensureRoleFromSessionRoles VoteMismatch
             (s\<lparr>console := console s @ [WarnVoteTargetMismatch mine tgt],
                voteIgnoreMessage := Some RoleAutoCorrectedRetry\<rparr>)
       \<and> scores (handleIncomingMessage env (Vote roundId tgt atSec) s) = scores s
       \<and> voteEvents (handleIncomingMessage env (Vote roundId tgt atSec) s) = voteEvents s
       \<and> voteIgnoreMessage (handleIncomingMessage env (Vote roundId tgt atSec) s) =
           Some RoleAutoCorrectedRetry
       \<and> (case sessionRolesRef s of
             None \<Rightarrow> lockedRole (handleIncomingMessage env (Vote roundId tgt atSec) s) = lockedRole s
           | Some roles \<Rightarrow>
               lockedRole (handleIncomingMessage env (Vote roundId tgt atSec) s) =
                 Some (if connectionModeRef s = Offer then hostRole roles else guestRole roles)
               \<and> roleLocked (handleIncomingMessage env (Vote roundId tgt atSec) s))"
  using assms
  by (auto simp add: handleIncomingMessage_def truthyStr_def ensureRoleFromSessionRoles_def
      Let_def split: option.splits)

theorem mistargeted_vote_rejected_witness:
  "scores (handleIncomingMessage (envAt 1010) (Vote ''r1'' Red 10) runningApp) = \<lparr>red = 0, blue = 0\<rparr>
   \<and> voteEvents (handleIncomingMessage (envAt 1010) (Vote ''r1'' Red 10) runningApp) = []
   \<and> voteIgnoreMessage (handleIncomingMessage (envAt 1010) (Vote ''r1'' Red 10) runningApp) =
        Some RoleAutoCorrectedRetry
   \<and> lockedRole (handleIncomingMessage (envAt 1010) (Vote ''r1'' Red 10) runningApp) = Some Blue"
  using mistargeted_vote_rejected [of "''r1''" runningApp Blue Red "envAt 1010" 10]
  by (simp add: runningApp_fields ensureRoleFromSessionRoles_def)

text \<open>
  Claim C10, amended. A received \<open>vote\<close> for the current round whose target is the
  receiver's locked role is applied whatever the state of the round is, also when it is
  \<open>Ended\<close>: the target's score becomes what the addition \<open>score + 1\<close> gives on
  doubles, which is one more as long as the score is below \<open>2 ^ 53\<close>, the other score
  stays, one entry is appended to the vote log and the state of the round is not
  touched. The local vote, \<open>handleVote\<close>, changes neither the scores nor the vote log
  and sends nothing unless the state is \<open>Running\<close>.
\<close>

theorem matching_vote_applied_in_any_state:
  assumes "roundId \<noteq> []" and "currentRoundIdRef s = Some roundId"
    and "lockedRoleRef s = Some tgt"
  shows "handleIncomingMessage env (Vote roundId tgt atSec) s = applyVote tgt atSec s
       \<and> scoreOf tgt (scores (handleIncomingMessage env (Vote roundId tgt atSec) s)) =
           jsPlus (scoreOf tgt (scores s)) 1
       \<and> (\<bar>scoreOf tgt (scores s)\<bar> < 2 ^ 53 \<longrightarrow>
            scoreOf tgt (scores (handleIncomingMessage env (Vote roundId tgt atSec) s)) =
              scoreOf tgt (scores s) + 1)
       \<and> scoreOf (otherRole tgt) (scores (handleIncomingMessage env (Vote roundId tgt atSec) s)) =
           scoreOf (otherRole tgt) (scores s)
       \<and> voteEvents (handleIncomingMessage env (Vote roundId tgt atSec) s) =
           voteEvents s @ [\<lparr>target = tgt, elapsed = atSec\<rparr>]
       \<and> gameState (handleIncomingMessage env (Vote roundId tgt atSec) s) = gameState s
       \<and> (gameState s \<noteq> Running \<longrightarrow>
            scores (handleVote env s) = scores s \<and> voteEvents (handleVote env s) = voteEvents s
            \<and> outbox (handleVote env s) = outbox s)"
proof -
  have applied: "handleIncomingMessage env (Vote roundId tgt atSec) s = applyVote tgt atSec s"
    using assms by (simp add: handleIncomingMessage_def truthyStr_def)
  have grown: "scoreOf tgt (scores (applyVote tgt atSec s)) = jsPlus (scoreOf tgt (scores s)) 1"
    by (cases tgt) (simp_all add: applyVote_def bumpScore_def scoreOf_def)
  have exact: "jsPlus (scoreOf tgt (scores s)) 1 = scoreOf tgt (scores s) + 1"
    if "\<bar>scoreOf tgt (scores s)\<bar> < 2 ^ 53"
    using that by (intro jsPlus_exact) simp
  have other: "scoreOf (otherRole tgt) (scores (applyVote tgt atSec s)) =
                 scoreOf (otherRole tgt) (scores s)"
    by (cases tgt) (simp_all add: applyVote_def bumpScore_def scoreOf_def otherRole_def)
  have log: "voteEvents (applyVote tgt atSec s) = voteEvents s @ [\<lparr>target = tgt, elapsed = atSec\<rparr>]"
    "gameState (applyVote tgt atSec s) = gameState s"
    by (simp_all add: applyVote_def)
  have local: "scores (handleVote env s) = scores s \<and> voteEvents (handleVote env s) = voteEvents s
      \<and> outbox (handleVote env s) = outbox s" if "gameState s \<noteq> Running"
    using that by (simp add: handleVote_def Let_def split: option.splits)
  show ?thesis
    using grown exact other log local unfolding applied by simp
qed

theorem matching_vote_applied_in_any_state_witness:
  "gameState endedApp = Ended
   \<and> scores (handleIncomingMessage (envAt 1800) (Vote ''r1'' Blue 790) endedApp) = \<lparr>red = 0, blue = 1\<rparr>
   \<and> voteEvents (handleIncomingMessage (envAt 1800) (Vote ''r1'' Blue 790) endedApp) =
        [\<lparr>target = Blue, elapsed = 790\<rparr>]
   \<and> gameState (handleIncomingMessage (envAt 1800) (Vote ''r1'' Blue 790) endedApp) = Ended
   \<and> scores (handleVote (envAt 1800) endedApp) = \<lparr>red = 0, blue = 0\<rparr>
   \<and> voteEvents (handleVote (envAt 1800) endedApp) = []
   \<and> outbox (handleVote (envAt 1800) endedApp) = []"
  using matching_vote_applied_in_any_state [of "''r1''" endedApp Blue "envAt 1800" 790]
  by (simp add: endedApp_fields applyVote_def bumpScore_def scoreOf_def jsPlus_exact)

text \<open>
  The claim as written fails for a score of \<open>2 ^ 53\<close>, which a peer holds after it
  adopted a snapshot that carries it: the next whole number is not a double, the
  addition gives \<open>2 ^ 53\<close> again, and the vote is logged while the score stays.
\<close>

theorem vote_at_largest_score_counterexample:
  "currentRoundIdRef saturatedApp = Some ''r1''
   \<and> lockedRoleRef saturatedApp = Some Blue
   \<and> scoreOf Blue (scores saturatedApp) = 2 ^ 53
   \<and> scoreOf Blue (scores (handleIncomingMessage (envAt 1300) (Vote ''r1'' Blue 300) saturatedApp))
       = 2 ^ 53
   \<and> length (voteEvents (handleIncomingMessage (envAt 1300) (Vote ''r1'' Blue 300) saturatedApp))
       = Suc (length (voteEvents saturatedApp))"
proof -
  have stalls: "jsPlus 9007199254740992 1 = 9007199254740992"
    using jsPlus_one_stalls by simp
  show ?thesis
    by (simp add: saturatedApp_fields handleIncomingMessage_def truthyStr_def applyVote_def
        bumpScore_def scoreOf_def stalls)
qed

section \<open>Received snapshots\<close>

text \<open>
  Claim C8, amended. For every received \<open>stateSnapshot\<close> whose payload has a non-empty
  round id: if the receiver has a current round (a non-empty \<open>currentRoundIdRef\<close>) with
  another id, the snapshot is dropped, a warning is logged and nothing else changes;
  if the payload's id is the current round's, or the receiver has no current round, the
  state becomes the one \<open>hydrateStateFromSnapshot\<close> builds: round id, times, state,
  scores, vote log, locked role, session id and version are the payload's.
  (The handler compares the payload's id; the \<open>roundId\<close> beside the payload is not read.)
\<close>

theorem snapshot_dropped_or_adopted:
  assumes "snapGameId snapshot \<noteq> []"
  shows "(truthyStr (currentRoundIdRef s) \<and> currentRoundIdRef s \<noteq> Some (snapGameId snapshot) \<longrightarrow>
            handleIncomingMessage env (StateSnapshot roundId snapshot) s =
              s\<lparr>console := console s @
                   [WarnForeignSnapshot (currentRoundIdRef s) (snapGameId snapshot)]\<rparr>)
       \<and> (currentRoundIdRef s = Some (snapGameId snapshot) \<or> \<not> truthyStr (currentRoundIdRef s)
            \<longrightarrow>
            handleIncomingMessage env (StateSnapshot roundId snapshot) s =
              (hydrateStateFromSnapshot env snapshot False s)\<lparr>offlineSnapshotMode := False\<rparr>
            \<and> currentRoundId (handleIncomingMessage env (StateSnapshot roundId snapshot) s) =
                Some (snapGameId snapshot)
            \<and> currentRoundIdRef (handleIncomingMessage env (StateSnapshot roundId snapshot) s) =
                Some (snapGameId snapshot)
            \<and> startTimeSec (handleIncomingMessage env (StateSnapshot roundId snapshot) s) =
                Some (snapStartTimeSec snapshot)
            \<and> endTimeSec (handleIncomingMessage env (StateSnapshot roundId snapshot) s) =
                Some (snapEndTimeSec snapshot)
            \<and> gameState (handleIncomingMessage env (StateSnapshot roundId snapshot) s) =
                snapGameState snapshot
            \<and> scores (handleIncomingMessage env (StateSnapshot roundId snapshot) s) =
                \<lparr>red = snapScoreRed snapshot, blue = snapScoreBlue snapshot\<rparr>
            \<and> voteEvents (handleIncomingMessage env (StateSnapshot roundId snapshot) s) =
                map (\<lambda>event. \<lparr>target = evTarget event, elapsed = at event\<rparr>) (snapEvents snapshot)
            \<and> lockedRole (handleIncomingMessage env (StateSnapshot roundId snapshot) s) =
                Some (snapLockedRole snapshot)
            \<and> sessionId (handleIncomingMessage env (StateSnapshot roundId snapshot) s) =
                snapSessionId snapshot
            \<and> sessionIdRef (handleIncomingMessage env (StateSnapshot roundId snapshot) s) =
                snapSessionId snapshot
            \<and> snapshotVersionRef (handleIncomingMessage env (StateSnapshot roundId snapshot) s) =
                snapVersion snapshot)"
proof -
  have adopt: "currentRoundIdRef s = Some (snapGameId snapshot) \<or> \<not> truthyStr (currentRoundIdRef s)
      \<Longrightarrow> handleIncomingMessage env (StateSnapshot roundId snapshot) s =
              (hydrateStateFromSnapshot env snapshot False s)\<lparr>offlineSnapshotMode := False\<rparr>"
    using assms by (auto simp add: handleIncomingMessage_def)
  have drop: "truthyStr (currentRoundIdRef s) \<and> currentRoundIdRef s \<noteq> Some (snapGameId snapshot)
      \<Longrightarrow> handleIncomingMessage env (StateSnapshot roundId snapshot) s =
              s\<lparr>console := console s @
                   [WarnForeignSnapshot (currentRoundIdRef s) (snapGameId snapshot)]\<rparr>"
    using assms by (simp add: handleIncomingMessage_def)
  show ?thesis
    using adopt drop
    by (simp add: hydrateStateFromSnapshot_def Let_def tryStorage_def setItem_def)
qed

theorem snapshot_dropped_or_adopted_witness:
  "handleIncomingMessage (envAt 1200) (StateSnapshot ''r1'' snapshotOfR1) runningApp =
     (hydrateStateFromSnapshot (envAt 1200) snapshotOfR1 False runningApp)
       \<lparr>offlineSnapshotMode := False\<rparr>
   \<and> scores (handleIncomingMessage (envAt 1200) (StateSnapshot ''r1'' snapshotOfR1) runningApp) =
       \<lparr>red = 2, blue = 1\<rparr>
   \<and> lockedRole (handleIncomingMessage (envAt 1200) (StateSnapshot ''r1'' snapshotOfR1) runningApp) =
       Some Red
   \<and> handleIncomingMessage (envAt 1200)
       (StateSnapshot ''r7'' (snapshotOfR1\<lparr>snapGameId := ''r7''\<rparr>)) runningApp =
       runningApp\<lparr>console := [WarnForeignSnapshot (Some ''r1'') ''r7'']\<rparr>"
  using snapshot_dropped_or_adopted [of snapshotOfR1 runningApp "envAt 1200" "''r1''"]
    snapshot_dropped_or_adopted
      [of "snapshotOfR1\<lparr>snapGameId := ''r7''\<rparr>" runningApp "envAt 1200" "''r7''"]
  by (simp add: runningApp_fields snapshotOfR1_def truthyStr_def hydrateStateFromSnapshot_def
      Let_def tryStorage_def setItem_def envAt_def)

text \<open>
  The claim as written fails for a payload with an empty round id: a receiver without
  a current round does not adopt it, and a receiver with a current round drops it
  without the warning.
\<close>

theorem snapshot_without_id_counterexample:
  "\<not> truthyStr (currentRoundIdRef initialApp)
   \<and> handleIncomingMessage (envAt 1200)
        (StateSnapshot [] (snapshotOfR1\<lparr>snapGameId := []\<rparr>)) initialApp = initialApp
   \<and> gameState initialApp \<noteq> snapGameState (snapshotOfR1\<lparr>snapGameId := []\<rparr>)
   \<and> truthyStr (currentRoundIdRef runningApp)
   \<and> currentRoundIdRef runningApp \<noteq> Some (snapGameId (snapshotOfR1\<lparr>snapGameId := []\<rparr>))
   \<and> console (handleIncomingMessage (envAt 1200)
        (StateSnapshot [] (snapshotOfR1\<lparr>snapGameId := []\<rparr>)) runningApp) = []"
  by (simp add: handleIncomingMessage_def truthyStr_def initialApp_def snapshotOfR1_def
      runningApp_fields)

section \<open>Persisting and hydrating\<close>

lemma voteEvent_rebuild: "\<lparr>target = target (x::VoteEvent), elapsed = elapsed x\<rparr> = x"
  by (cases x) simp

lemma persist_ready_result:
  assumes "snapshotReady s"
  shows "\<exists>snapshot. fst (persistSnapshot env s) = Some snapshot
           \<and> snapVersion snapshot = jsPlus (snapshotVersionRef s) 1
           \<and> snapLastUpdatedAt snapshot = nowMs env
           \<and> currentRoundId s = Some (snapGameId snapshot)
           \<and> startTimeSec s = Some (snapStartTimeSec snapshot)
           \<and> endTimeSec s = Some (snapEndTimeSec snapshot)
           \<and> gameState s = snapGameState snapshot
           \<and> scores s = \<lparr>red = snapScoreRed snapshot, blue = snapScoreBlue snapshot\<rparr>
           \<and> voteEvents s = map (\<lambda>event. \<lparr>target = evTarget event, elapsed = at event\<rparr>)
                               (snapEvents snapshot)
           \<and> lockedRole s = Some (snapLockedRole snapshot)
           \<and> sessionId s = snapSessionId snapshot"
  using assms
  by (auto simp add: snapshotReady_def persistSnapshot_def buildSnapshotFromState_def
      truthyStr_def truthyNum_def Let_def comp_def voteEvent_rebuild split: option.splits)

lemma persist_ready_state:
  assumes "snapshotReady s"
  shows "snapshotReady (snd (persistSnapshot env s))"
    and "storageOk env \<Longrightarrow>
           snapshotVersionRef (snd (persistSnapshot env s)) = jsPlus (snapshotVersionRef s) 1"
    and "\<not> storageOk env \<Longrightarrow> snapshotVersionRef (snd (persistSnapshot env s)) = snapshotVersionRef s"
  using assms
  by (auto simp add: snapshotReady_def persistSnapshot_def buildSnapshotFromState_def
      truthyStr_def truthyNum_def Let_def tryStorage_def setItem_def split: option.splits)

lemma persistTimes_Cons_fst:
  "fst (persistTimes (env # envs) s) =
     fst (persistSnapshot env s) # fst (persistTimes envs (snd (persistSnapshot env s)))"
  by (simp split: prod.splits)

lemma persistTimes_versions:
  assumes "snapshotReady s" and "\<forall>env\<in>set envs. storageOk env"
    and "0 \<le> snapshotVersionRef s" and "snapshotVersionRef s + int (length envs) \<le> 2 ^ 53"
  shows "map (map_option snapVersion) (fst (persistTimes envs s)) =
           map (\<lambda>k. Some (snapshotVersionRef s + int k)) [1..<Suc (length envs)]"
  using assms
proof (induction envs arbitrary: s)
  case Nil
  then show ?case by simp
next
  case (Cons env envs)
  have exact: "jsPlus (snapshotVersionRef s) 1 = snapshotVersionRef s + 1"
    using Cons.prems(3,4) by (intro jsPlus_exact) simp
  obtain snapshot where first: "fst (persistSnapshot env s) = Some snapshot"
    and ver: "snapVersion snapshot = snapshotVersionRef s + 1"
    using persist_ready_result [OF Cons.prems(1)] exact by auto
  let ?s1 = "snd (persistSnapshot env s)"
  have ready1: "snapshotReady ?s1"
    by (rule persist_ready_state(1) [OF Cons.prems(1)])
  have ver1: "snapshotVersionRef ?s1 = snapshotVersionRef s + 1"
    using persist_ready_state(2) [OF Cons.prems(1)] Cons.prems(2) exact by simp
  have bounds: "0 \<le> snapshotVersionRef ?s1"
    "snapshotVersionRef ?s1 + int (length envs) \<le> 2 ^ 53"
    using Cons.prems(3,4) ver1 by simp_all
  have rest: "map (map_option snapVersion) (fst (persistTimes envs ?s1)) =
                map (\<lambda>k. Some (snapshotVersionRef ?s1 + int k)) [1..<Suc (length envs)]"
    using Cons.IH [OF ready1 _ bounds] Cons.prems(2) by simp
  have upt_shift: "[Suc 1..<Suc (Suc (length envs))] = map Suc [1..<Suc (length envs)]"
    by (simp only: map_Suc_upt)
  have shift: "map (\<lambda>k. Some (snapshotVersionRef s + int k)) [Suc 1..<Suc (Suc (length envs))] =
                 map (\<lambda>k. Some (snapshotVersionRef s + 1 + int k)) [1..<Suc (length envs)]"
    unfolding upt_shift map_map comp_def by (rule map_cong) simp_all
  have unfold: "[1..<Suc (length (env # envs))] = 1 # [Suc 1..<Suc (Suc (length envs))]"
    by (simp add: upt_rec)
  show ?case
    using first ver rest ver1 shift
    unfolding unfold persistTimes_Cons_fst by (simp del: upt_Suc)
qed

text \<open>
  Claim C2, amended. Take a round that \<open>persistSnapshot\<close> can store (\<open>snapshotReady\<close>):
  its round id is not empty, its start time and its end time are not zero, the peer has
  a locked role, and the state of the round is not \<open>Idle\<close>.
  \<^item> If the version cell is 0, as every start of a round leaves it, and every write to
    the local store succeeds, calling \<open>persistSnapshot\<close> N times in succession, for N
    up to \<open>2 ^ 53\<close>, returns snapshots with the versions 1, 2, ..., N.
  \<^item> Whatever the version cell holds and whether the write succeeds or not,
    \<open>persistSnapshot\<close> returns a snapshot, and hydrating any state from it gives the
    round id, start time, end time, state, scores, vote log, locked role and session id
    of the state before the call; the version is what the addition \<open>version + 1\<close> gives
    on doubles.
\<close>

theorem persist_versions_and_roundtrip:
  assumes "snapshotReady s"
  shows "(snapshotVersionRef s = 0 \<and> (\<forall>env\<in>set envs. storageOk env)
            \<and> int (length envs) \<le> 2 ^ 53 \<longrightarrow>
          map (map_option snapVersion) (fst (persistTimes envs s)) =
            map (\<lambda>k. Some (int k)) [1..<Suc (length envs)])
       \<and> (case fst (persistSnapshot env s) of
             None \<Rightarrow> False
           | Some snapshot \<Rightarrow>
               currentRoundId (hydrateStateFromSnapshot env' snapshot offline t) = currentRoundId s
               \<and> startTimeSec (hydrateStateFromSnapshot env' snapshot offline t) = startTimeSec s
               \<and> endTimeSec (hydrateStateFromSnapshot env' snapshot offline t) = endTimeSec s
               \<and> gameState (hydrateStateFromSnapshot env' snapshot offline t) = gameState s
               \<and> scores (hydrateStateFromSnapshot env' snapshot offline t) = scores s
               \<and> voteEvents (hydrateStateFromSnapshot env' snapshot offline t) = voteEvents s
               \<and> lockedRole (hydrateStateFromSnapshot env' snapshot offline t) = lockedRole s
               \<and> sessionId (hydrateStateFromSnapshot env' snapshot offline t) = sessionId s
               \<and> snapshotVersionRef (hydrateStateFromSnapshot env' snapshot offline t) =
                   jsPlus (snapshotVersionRef s) 1)"
proof -
  have versions: "map (map_option snapVersion) (fst (persistTimes envs s)) =
           map (\<lambda>k. Some (int k)) [1..<Suc (length envs)]"
    if "snapshotVersionRef s = 0" "\<forall>env\<in>set envs. storageOk env" "int (length envs) \<le> 2 ^ 53"
    using persistTimes_versions [OF assms that(2)] that(1,3) by simp
  obtain snapshot where res: "fst (persistSnapshot env s) = Some snapshot"
    and fields: "snapVersion snapshot = jsPlus (snapshotVersionRef s) 1"
      "currentRoundId s = Some (snapGameId snapshot)"
      "startTimeSec s = Some (snapStartTimeSec snapshot)"
      "endTimeSec s = Some (snapEndTimeSec snapshot)"
      "gameState s = snapGameState snapshot"
      "scores s = \<lparr>red = snapScoreRed snapshot, blue = snapScoreBlue snapshot\<rparr>"
      "voteEvents s = map (\<lambda>event. \<lparr>target = evTarget event, elapsed = at event\<rparr>)
                               (snapEvents snapshot)"
      "lockedRole s = Some (snapLockedRole snapshot)"
      "sessionId s = snapSessionId snapshot"
    using persist_ready_result [OF assms, of env] by blast
  have roundtrip: "(case fst (persistSnapshot env s) of
             None \<Rightarrow> False
           | Some snapshot \<Rightarrow>
               currentRoundId (hydrateStateFromSnapshot env' snapshot offline t) = currentRoundId s
               \<and> startTimeSec (hydrateStateFromSnapshot env' snapshot offline t) = startTimeSec s
               \<and> endTimeSec (hydrateStateFromSnapshot env' snapshot offline t) = endTimeSec s
               \<and> gameState (hydrateStateFromSnapshot env' snapshot offline t) = gameState s
               \<and> scores (hydrateStateFromSnapshot env' snapshot offline t) = scores s
               \<and> voteEvents (hydrateStateFromSnapshot env' snapshot offline t) = voteEvents s
               \<and> lockedRole (hydrateStateFromSnapshot env' snapshot offline t) = lockedRole s
               \<and> sessionId (hydrateStateFromSnapshot env' snapshot offline t) = sessionId s
               \<and> snapshotVersionRef (hydrateStateFromSnapshot env' snapshot offline t) =
                   jsPlus (snapshotVersionRef s) 1)"
    by (simp add: res fields hydrateStateFromSnapshot_def Let_def tryStorage_def setItem_def)
  show ?thesis using versions roundtrip by blast
qed

lemma snapshotReady_runningApp: "snapshotReady runningApp"
  by (simp add: snapshotReady_def runningApp_fields truthyStr_def truthyNum_def)

lemma snapshotReady_saturatedApp: "snapshotReady saturatedApp"
  by (simp add: snapshotReady_def saturatedApp_fields truthyStr_def truthyNum_def)

theorem persist_versions_and_roundtrip_witness:
  "map (map_option snapVersion)
     (fst (persistTimes [envAt 1001, envAt 1002, envAt 1003] runningApp)) = [Some 1, Some 2, Some 3]
   \<and> (case fst (persistSnapshot ((envAt 1001)\<lparr>storageOk := False\<rparr>) runningApp) of
         None \<Rightarrow> False
       | Some snapshot \<Rightarrow>
           currentRoundId (hydrateStateFromSnapshot (envAt 2000) snapshot True initialApp) = Some ''r1''
           \<and> gameState (hydrateStateFromSnapshot (envAt 2000) snapshot True initialApp) = Running
           \<and> lockedRole (hydrateStateFromSnapshot (envAt 2000) snapshot True initialApp) = Some Blue
           \<and> snapshotVersionRef (hydrateStateFromSnapshot (envAt 2000) snapshot True initialApp) = 1)"
  using persist_versions_and_roundtrip
    [where s = runningApp and envs = "[envAt 1001, envAt 1002, envAt 1003]"
       and env = "(envAt 1001)\<lparr>storageOk := False\<rparr>" and env' = "envAt 2000" and offline = True
       and t = initialApp]
  by (simp add: snapshotReady_runningApp runningApp_fields envAt_def upt_rec jsPlus_exact
      split: option.splits)

text \<open>
  The claim as written fails when the local store refuses the writes: the version
  cell is advanced inside the \<open>try\<close> block, after the writes, so two calls in
  succession both return version 1. A round started on a peer that has no locked role
  yields no snapshot at all, and neither does a round that started while the clock read
  second 0, since a start time of zero counts as missing. And once the version cell
  holds \<open>2 ^ 53\<close>, as it does after the adoption of a snapshot with that version, the
  addition of 1 gives \<open>2 ^ 53\<close> again, so the versions no longer grow.
\<close>

theorem persist_version_stalls_counterexample:
  "snapshotReady runningApp \<and> snapshotVersionRef runningApp = 0
   \<and> map (map_option snapVersion)
       (fst (persistTimes [(envAt 1001)\<lparr>storageOk := False\<rparr>, (envAt 1002)\<lparr>storageOk := False\<rparr>]
          runningApp)) = [Some 1, Some 1]
   \<and> gameState (handleIncomingMessage (envAt 1000) (Start ''r1'' (Whole 1600) None) initialApp) =
       Running
   \<and> fst (persistSnapshot (envAt 1001)
            (handleIncomingMessage (envAt 1000) (Start ''r1'' (Whole 1600) None) initialApp)) = None
   \<and> gameState secondZeroApp = Running \<and> lockedRole secondZeroApp = Some Blue
   \<and> fst (persistSnapshot (envAt 1) secondZeroApp) = None
   \<and> snapshotReady saturatedApp \<and> snapshotVersionRef saturatedApp = 2 ^ 53
   \<and> map (map_option snapVersion) (fst (persistTimes [envAt 1201, envAt 1202] saturatedApp)) =
       [Some (2 ^ 53), Some (2 ^ 53)]"
proof -
  have stalls: "jsPlus 9007199254740992 1 = 9007199254740992"
    using jsPlus_one_stalls by simp
  have first: "snapshotReady runningApp \<and> snapshotVersionRef runningApp = 0
   \<and> map (map_option snapVersion)
       (fst (persistTimes [(envAt 1001)\<lparr>storageOk := False\<rparr>, (envAt 1002)\<lparr>storageOk := False\<rparr>]
          runningApp)) = [Some 1, Some 1]"
    by (simp add: snapshotReady_runningApp runningApp_fields persistSnapshot_def
        buildSnapshotFromState_def Let_def envAt_def jsPlus_exact split: prod.splits)
  have second: "gameState (handleIncomingMessage (envAt 1000) (Start ''r1'' (Whole 1600) None) initialApp) =
       Running
   \<and> fst (persistSnapshot (envAt 1001)
            (handleIncomingMessage (envAt 1000) (Start ''r1'' (Whole 1600) None) initialApp)) = None"
    by (simp add: persistSnapshot_def buildSnapshotFromState_def Let_def tryStorage_def envAt_def
        handleIncomingMessage_def beginGameWithEndTime_def isFinite_def jsLessEq_def nowSecOf_def
        initialApp_def)
  have third: "gameState secondZeroApp = Running \<and> lockedRole secondZeroApp = Some Blue
   \<and> fst (persistSnapshot (envAt 1) secondZeroApp) = None"
    by (simp add: secondZeroApp_fields persistSnapshot_def buildSnapshotFromState_def)
  have fourth: "snapshotReady saturatedApp \<and> snapshotVersionRef saturatedApp = 2 ^ 53
   \<and> map (map_option snapVersion) (fst (persistTimes [envAt 1201, envAt 1202] saturatedApp)) =
       [Some (2 ^ 53), Some (2 ^ 53)]"
    by (simp add: snapshotReady_saturatedApp saturatedApp_fields persistSnapshot_def
        buildSnapshotFromState_def Let_def envAt_def stalls split: prod.splits)
  show ?thesis using first second third fourth by blast
qed

section \<open>The history index\<close>

lemma historyCompare_ordered: "historyCompare a b \<le> 0 \<longleftrightarrow> historyOrdered a b"
  by (auto simp add: historyCompare_def historyOrdered_def)

lemma historyOrdered_total: "historyOrdered a b \<or> historyOrdered b a"
  by (auto simp add: historyOrdered_def)

lemma historyOrdered_trans: "historyOrdered a b \<Longrightarrow> historyOrdered b c \<Longrightarrow> historyOrdered a c"
  by (auto simp add: historyOrdered_def)

lemma set_insortBy: "set (insortBy cmp x xs) = insert x (set xs)"
  by (induction xs) auto

lemma set_sortBy: "set (sortBy cmp xs) = set xs"
  by (induction xs) (auto simp add: sortBy_def set_insortBy)

lemma sorted_insortBy_history:
  "sorted_wrt historyOrdered xs \<Longrightarrow> sorted_wrt historyOrdered (insortBy historyCompare x xs)"
proof (induction xs)
  case Nil
  then show ?case by simp
next
  case (Cons y ys)
  show ?case
  proof (cases "historyCompare x y \<le> 0")
    case True
    then have xy: "historyOrdered x y" by (simp add: historyCompare_ordered)
    have "\<forall>z\<in>set ys. historyOrdered x z"
      using Cons.prems xy historyOrdered_trans by auto
    then show ?thesis using True xy Cons.prems by simp
  next
    case False
    then have yx: "historyOrdered y x"
      using historyOrdered_total [of x y] by (simp add: historyCompare_ordered)
    have "sorted_wrt historyOrdered (insortBy historyCompare x ys)"
      using Cons by simp
    then show ?thesis using False yx Cons.prems by (auto simp add: set_insortBy)
  qed
qed

lemma sorted_sortBy_history: "sorted_wrt historyOrdered (sortBy historyCompare xs)"
proof (induction xs)
  case Nil
  then show ?case by (simp add: sortBy_def)
next
  case (Cons x xs)
  then show ?case using sorted_insortBy_history [of "sortBy historyCompare xs" x]
    by (simp add: sortBy_def)
qed

lemma distinct_map_insortBy:
  "distinct (map f (insortBy cmp x xs)) \<longleftrightarrow> f x \<notin> f ` set xs \<and> distinct (map f xs)"
  by (induction xs) (auto simp add: set_insortBy)

lemma distinct_map_sortBy: "distinct (map f (sortBy cmp xs)) \<longleftrightarrow> distinct (map f xs)"
proof (induction xs)
  case Nil
  then show ?case by (simp add: sortBy_def)
next
  case (Cons x xs)
  have "distinct (map f (sortBy cmp (x # xs))) \<longleftrightarrow>
          f x \<notin> f ` set (sortBy cmp xs) \<and> distinct (map f (sortBy cmp xs))"
    using distinct_map_insortBy [of f cmp x "sortBy cmp xs"] by (simp add: sortBy_def)
  then show ?case using Cons by (simp add: set_sortBy)
qed

lemma findIndex_found:
  "0 \<le> findIndex p xs \<Longrightarrow> nat (findIndex p xs) < length xs \<and> p (xs ! nat (findIndex p xs))"
proof (induction xs)
  case Nil
  then show ?case by simp
next
  case (Cons x xs)
  show ?case
  proof (cases "p x")
    case True
    then show ?thesis by simp
  next
    case False
    with Cons.prems have pos: "0 \<le> findIndex p xs"
      by (simp add: Let_def split: if_splits)
    with Cons.IH have "nat (findIndex p xs) < length xs \<and> p (xs ! nat (findIndex p xs))" by simp
    then show ?thesis using False pos by (simp add: Let_def nat_add_distrib)
  qed
qed

lemma findIndex_missing: "findIndex p xs < 0 \<Longrightarrow> \<forall>x\<in>set xs. \<not> p x"
  by (induction xs) (auto simp add: Let_def split: if_splits)

lemma distinct_upsert:
  assumes "distinct (map hGameId prev)"
  shows "distinct (map hGameId
           (if 0 \<le> findIndex (\<lambda>item. hGameId item = hGameId entry) prev
            then prev[nat (findIndex (\<lambda>item. hGameId item = hGameId entry) prev) := entry]
            else prev @ [entry]))"
proof (cases "0 \<le> findIndex (\<lambda>item. hGameId item = hGameId entry) prev")
  case True
  let ?i = "nat (findIndex (\<lambda>item. hGameId item = hGameId entry) prev)"
  have "?i < length prev \<and> hGameId (prev ! ?i) = hGameId entry"
    using findIndex_found [OF True] by simp
  then have "map hGameId (prev[?i := entry]) = map hGameId prev"
    by (simp add: map_update list_update_same_conv)
  then show ?thesis using True assms by simp
next
  case False
  then have "\<forall>x\<in>set prev. hGameId x \<noteq> hGameId entry"
    using findIndex_missing [of "\<lambda>item. hGameId item = hGameId entry" prev] by simp
  then show ?thesis using False assms by auto
qed

lemma historyInvariant_upsert:
  assumes "historyInvariant (historyIndex s)"
  shows "historyInvariant (historyIndex (upsertHistoryIndex env snapshot s))"
proof (cases "snapGameState snapshot = Ended")
  case False
  then show ?thesis using assms by (simp add: upsertHistoryIndex_def)
next
  case True
  define entry where
    "entry = \<lparr>hGameId = snapGameId snapshot, hStartTimeSec = snapStartTimeSec snapshot,
              hEndTimeSec = snapEndTimeSec snapshot, hScoreRed = snapScoreRed snapshot,
              hScoreBlue = snapScoreBlue snapshot, hLastUpdatedAt = snapLastUpdatedAt snapshot\<rparr>"
  have "distinct (map hGameId
           (if 0 \<le> findIndex (\<lambda>item. hGameId item = hGameId entry) (historyIndex s)
            then (historyIndex s)
                   [nat (findIndex (\<lambda>item. hGameId item = hGameId entry) (historyIndex s)) := entry]
            else historyIndex s @ [entry]))"
    using distinct_upsert [of "historyIndex s" entry] assms by (simp add: historyInvariant_def)
  then show ?thesis
    using True unfolding entry_def
    by (simp add: upsertHistoryIndex_def historyInvariant_def Let_def sorted_sortBy_history
        distinct_map_sortBy)
qed

lemma historyInvariant_delete:
  "historyInvariant (historyIndex s) \<Longrightarrow>
     historyInvariant (historyIndex (handleDeleteHistoryGame env gid onDisplay s))"
  by (simp add: handleDeleteHistoryGame_def historyInvariant_def Let_def sorted_wrt_filter
      distinct_map_filter)

lemma historyInvariant_op:
  "historyInvariant (historyIndex s) \<Longrightarrow> historyInvariant (historyIndex (historyOp env op s))"
  by (cases op) (simp_all add: historyOp_def historyInvariant_upsert historyInvariant_delete)

text \<open>
  Claim C9. After any sequence of upserts and removals, each with its own environment,
  applied to a history index that is sorted and free of duplicates (the empty index
  the component starts with is), the index is sorted by end time, later first, ties by
  the time of the last update, later first, and no round id occurs twice. An upsert
  of a snapshot whose state is not \<open>Ended\<close> changes nothing.
\<close>

theorem history_index_sorted_and_unique:
  assumes "sorted_wrt historyOrdered (historyIndex s)" and "distinct (map hGameId (historyIndex s))"
  shows "sorted_wrt historyOrdered (historyIndex (historyOps ops s))
       \<and> distinct (map hGameId (historyIndex (historyOps ops s)))"
proof -
  have "historyInvariant (historyIndex s) \<Longrightarrow> historyInvariant (historyIndex (historyOps ops s))"
  proof (induction ops arbitrary: s)
    case Nil
    then show ?case by simp
  next
    case (Cons a ops)
    obtain env op where a: "a = (env, op)" by (cases a)
    show ?case using Cons.IH [OF historyInvariant_op [OF Cons.prems, of env op]] a by simp
  qed
  then show ?thesis using assms by (simp add: historyInvariant_def)
qed

theorem history_index_sorted_and_unique_witness:
  "map (\<lambda>e. (hGameId e, hEndTimeSec e, hLastUpdatedAt e))
     (historyIndex
        (historyOps
           [(envAt 1, Upsert (endedSnapshot ''a'' 1600 10)),
            (envAt 2, Upsert (endedSnapshot ''b'' 1700 20)),
            (envAt 3, Upsert (endedSnapshot ''c'' 1600 30)),
            (envAt 4, Upsert (endedSnapshot ''a'' 1600 40)),
            (envAt 5, Remove ''b'' False),
            (envAt 6, Upsert snapshotOfR1)]
           initialApp)) = [(''a'', 1600, 40), (''c'', 1600, 30)]
   \<and> sorted_wrt historyOrdered
        (historyIndex
           (historyOps
              [(envAt 1, Upsert (endedSnapshot ''a'' 1600 10)),
               (envAt 2, Upsert (endedSnapshot ''b'' 1700 20)),
               (envAt 3, Upsert (endedSnapshot ''c'' 1600 30)),
               (envAt 4, Upsert (endedSnapshot ''a'' 1600 40)),
               (envAt 5, Remove ''b'' False),
               (envAt 6, Upsert snapshotOfR1)]
              initialApp))"
  using history_index_sorted_and_unique
    [where s = initialApp and ops = "[(envAt 1, Upsert (endedSnapshot ''a'' 1600 10)),
            (envAt 2, Upsert (endedSnapshot ''b'' 1700 20)),
            (envAt 3, Upsert (endedSnapshot ''c'' 1600 30)),
            (envAt 4, Upsert (endedSnapshot ''a'' 1600 40)),
            (envAt 5, Remove ''b'' False),
            (envAt 6, Upsert snapshotOfR1)]"]
  by (simp add: initialApp_def historyOp_def upsertHistoryIndex_def handleDeleteHistoryGame_def
      endedSnapshot_def snapshotOfR1_def Let_def sortBy_def historyCompare_def tryStorage_def
      setItem_def removeItem_def envAt_def)

section \<open>The life of a round\<close>

lemmas session_defs = sendMessage_def sendAssignRolesOnce_def scheduleRetry_def
  clearAssignRolesRetryTimer_def resetSessionAndRolesForNewAnswerJoin_def clearSessionAndRoles_def
  ensureRoleFromSessionRoles_def

lemma roundFields_handleIncomingMessage:
  assumes "\<not> touchesRound (Receive msg)"
  shows "roundFields (handleIncomingMessage env msg s) = roundFields s"
proof (cases msg)
  case (Vote roundId tgt atSec)
  then show ?thesis
    by (simp add: roundFields_def handleIncomingMessage_def applyVote_def
        ensureRoleFromSessionRoles_def Let_def split: option.splits)
next
  case (AssignRoles sid hr gr)
  then show ?thesis
    by (simp add: roundFields_def handleIncomingMessage_def sendMessage_def Let_def)
next
  case (AssignRolesAck sid r)
  then show ?thesis
    by (simp add: roundFields_def handleIncomingMessage_def clearAssignRolesRetryTimer_def
        split: option.splits)
qed (insert assms, simp_all add: roundFields_def handleIncomingMessage_def touchesRound_def)

lemma roundFields_step:
  assumes "\<not> touchesRound e"
  shows "roundFields (step env e s) = roundFields s"
proof (cases e)
  case (Receive msg)
  then show ?thesis using assms roundFields_handleIncomingMessage [of msg env s]
    by (simp add: step_def)
next
  case (SyncRef c)
  then show ?thesis by (cases c) (simp_all add: roundFields_def step_def syncRef_def)
next
  case RetryTimeout
  then show ?thesis
    by (simp add: roundFields_def step_def retryTimeout_def session_defs Let_def
        split: option.splits Stored.splits)
next
  case NoticeTimeout
  then show ?thesis
    by (simp add: roundFields_def step_def  Let_def
        split: option.splits Stored.splits)
next
  case PersistEffect
  then show ?thesis
    by (simp add: roundFields_def step_def persistEffect_def persistSnapshot_def upsertHistoryIndex_def tryStorage_def Let_def
        split: option.splits Stored.splits)
next
  case RoundEndedEffect
  then show ?thesis
    by (simp add: roundFields_def step_def roundEndedEffect_def tryStorage_def Let_def
        split: option.splits Stored.splits)
next
  case AssignRolesEffect
  then show ?thesis
    by (simp add: roundFields_def step_def assignRolesEffect_def session_defs Let_def
        split: option.splits Stored.splits)
next
  case SnapshotPushEffect
  then show ?thesis
    by (simp add: roundFields_def step_def snapshotPushEffect_def Let_def
        split: option.splits Stored.splits)
next
  case ClickVote
  then show ?thesis
    by (simp add: roundFields_def step_def handleVote_def applyVote_def session_defs Let_def
        split: option.splits Stored.splits)
next
  case (ClickProposeEndChange proposedUnix)
  then show ?thesis
    by (simp add: roundFields_def step_def handleProposeEndChange_def session_defs Let_def
        split: option.splits Stored.splits)
next
  case ClickProposeEndNow
  then show ?thesis
    by (simp add: roundFields_def step_def handleProposeEndNow_def session_defs Let_def
        split: option.splits Stored.splits)
next
  case ClickRejectEndChange
  then show ?thesis
    by (simp add: roundFields_def step_def handleRejectIncomingEndChange_def session_defs Let_def
        split: option.splits Stored.splits)
next
  case ClickRejectEndNow
  then show ?thesis
    by (simp add: roundFields_def step_def handleRejectIncomingEndNow_def session_defs Let_def
        split: option.splits Stored.splits)
next
  case (ClickSelectRole role)
  then show ?thesis
    by (simp add: roundFields_def step_def handleSelectRole_def Let_def
        split: option.splits Stored.splits)
next
  case ClickDiscardFromStats
  then show ?thesis
    by (simp add: roundFields_def step_def handleDiscardSnapshotFromStats_def tryStorage_def Let_def
        split: option.splits Stored.splits)
next
  case (ClickDeleteHistoryGame gid onDisplay)
  then show ?thesis
    by (simp add: roundFields_def step_def handleDeleteHistoryGame_def tryStorage_def Let_def
        split: option.splits Stored.splits)
next
  case (ClickLoadHistoryGame gid)
  then show ?thesis
    by (simp add: roundFields_def step_def handleLoadHistoryGame_def Let_def
        split: option.splits Stored.splits)
next
  case ClickExitHistoryView
  then show ?thesis
    by (simp add: roundFields_def step_def handleExitHistoryView_def Let_def
        split: option.splits Stored.splits)
next
  case (ClickChangeConnectionMode mode)
  then show ?thesis
    by (simp add: roundFields_def step_def  Let_def
        split: option.splits Stored.splits)
next
  case (ClickCreateOffer offerOk)
  then show ?thesis
    by (simp add: roundFields_def step_def handleCreateOffer_def createPeerConnection_def Let_def
        split: option.splits Stored.splits)
next
  case (ClickApplyOfferAndCreateAnswer outcome)
  then show ?thesis
    by (simp add: roundFields_def step_def handleApplyOfferAndCreateAnswer_def createPeerConnection_def session_defs Let_def
        split: option.splits AnswerOutcome.splits)
next
  case DataChannelArrived
  then show ?thesis
    by (simp add: roundFields_def step_def onDataChannel_def Let_def
        split: option.splits Stored.splits)
next
  case ChannelOpened
  then show ?thesis
    by (simp add: roundFields_def step_def onChannelOpen_def Let_def
        split: option.splits Stored.splits)
next
  case ChannelClosed
  then show ?thesis
    by (simp add: roundFields_def step_def onChannelClose_def Let_def
        split: option.splits Stored.splits)
next
  case ChannelErrored
  then show ?thesis
    by (simp add: roundFields_def step_def onChannelError_def Let_def
        split: option.splits Stored.splits)
next
  case PeerConnected
  then show ?thesis
    by (simp add: roundFields_def step_def onPeerConnected_def Let_def
        split: option.splits Stored.splits)
next
  case (PeerFailed ice)
  then show ?thesis
    by (simp add: roundFields_def step_def onPeerFailed_def Let_def
        split: option.splits Stored.splits)
next
  case (IntervalTick endSec)
  then show ?thesis using assms by (simp add: touchesRound_def)
next
  case RoundTimerEffect
  then show ?thesis using assms by (simp add: touchesRound_def)
next
  case (ClickStartGame endTimeUnix gameId)
  then show ?thesis using assms by (simp add: touchesRound_def)
next
  case ClickAcceptEndChange
  then show ?thesis using assms by (simp add: touchesRound_def)
next
  case ClickAcceptEndNow
  then show ?thesis using assms by (simp add: touchesRound_def)
next
  case ClickStartNewRound
  then show ?thesis using assms by (simp add: touchesRound_def)
next
  case ClickDiscardFromBanner
  then show ?thesis using assms by (simp add: touchesRound_def)
next
  case Unmount
  then show ?thesis using assms by (simp add: touchesRound_def)
qed


lemma invariants_read_roundFields:
  assumes "roundFields a = roundFields b"
  shows "roundInvariant a = roundInvariant b" and "timerInvariant a = timerInvariant b"
  using assms by (simp_all add: roundFields_def roundInvariant_def timerInvariant_def)

lemma inv_of_handleIncomingMessage:
  assumes "roundInvariant s" and "timerInvariant s"
    and "keepsEndAfterStart env (Receive msg) s"
  shows "roundInvariant (handleIncomingMessage env msg s)
       \<and> timerInvariant (handleIncomingMessage env msg s)"
proof (cases "touchesRound (Receive msg)")
  case False
  then have "roundFields (handleIncomingMessage env msg s) = roundFields s"
    by (rule roundFields_handleIncomingMessage)
  then show ?thesis
    using assms(1,2) invariants_read_roundFields [of "handleIncomingMessage env msg s" s]
    by simp
next
  case True
  show ?thesis
  proof (cases msg)
    case (Start roundId endTime roles)
    then show ?thesis using assms
      by (auto simp add: roundInvariant_def timerInvariant_def handleIncomingMessage_def Let_def
          beginGameWithEndTime_def isFinite_def jsLessEq_def ensureRoleFromSessionRoles_def
          tryStorage_def split: option.splits if_splits JsNumber.splits)
  next
    case (StateSnapshot x payload)
    then show ?thesis using assms
      by (auto simp add: roundInvariant_def timerInvariant_def handleIncomingMessage_def
          keepsEndAfterStart_def adoptsSnapshot_def hydrateStateFromSnapshot_def tryStorage_def
          Let_def split: option.splits if_splits)
  next
    case (AcceptEndChange roundId proposedEndTime)
    then show ?thesis using assms
      by (auto simp add: roundInvariant_def timerInvariant_def handleIncomingMessage_def
          keepsEndAfterStart_def forCurrentRound_def afterStart_def applyEndTimeUpdate_def
          split: option.splits if_splits)
  next
    case (AcceptEndNow roundId)
    then show ?thesis using assms
      by (auto simp add: roundInvariant_def timerInvariant_def handleIncomingMessage_def
          keepsEndAfterStart_def forCurrentRound_def afterStart_def applyImmediateEndLocal_def
          Let_def split: option.splits if_splits)
  qed (insert True, simp_all add: touchesRound_def)
qed

lemma roundFields_resetGameState:
  "roundFields (resetGameState env s) = (Idle, None, None, None, False)"
  by (simp add: roundFields_def resetGameState_def tryStorage_def Let_def)

lemma roundFields_clearSessionAndRoles:
  "roundFields (clearSessionAndRoles s) = roundFields s"
  by (simp add: roundFields_def clearSessionAndRoles_def clearAssignRolesRetryTimer_def Let_def)

lemma roundFields_tryStorage: "roundFields (tryStorage env body s) = roundFields s"
  by (simp add: roundFields_def tryStorage_def)

lemma roundFields_sendMessage: "roundFields (sendMessage env msg s) = roundFields s"
  by (simp add: roundFields_def sendMessage_def)

lemma roundFields_resets:
  "roundFields (handleStartNewRound env s) = (Idle, None, None, None, False)"
  "roundFields (handleDiscardSnapshotFromBanner env s) = (Idle, None, None, None, False)"
  "roundFields (cleanupConnection env s) = (Idle, None, None, None, False)"
proof -
  have a: "roundFields (t\<lparr>infoMessage := i, voteIgnoreMessage := v, incomingEndChange := c,
             incomingEndNow := n\<rparr>) = roundFields t" for t :: App and i v c n
    by (simp add: roundFields_def)
  have b: "roundFields (t\<lparr>historyViewSnapshot := h\<rparr>) = roundFields t" for t :: App and h
    by (simp add: roundFields_def)
  show "roundFields (handleStartNewRound env s) = (Idle, None, None, None, False)"
    unfolding handleStartNewRound_def Let_def
    by (simp only: a roundFields_clearSessionAndRoles roundFields_tryStorage
        roundFields_resetGameState)
  show "roundFields (handleDiscardSnapshotFromBanner env s) = (Idle, None, None, None, False)"
    unfolding handleDiscardSnapshotFromBanner_def Let_def
    by (simp only: b roundFields_resetGameState)
  show "roundFields (cleanupConnection env s) = (Idle, None, None, None, False)"
    unfolding cleanupConnection_def Let_def
    by (simp only: roundFields_clearSessionAndRoles roundFields_resetGameState)
qed

lemma inv_of_idle:
  assumes "roundFields t = (Idle, None, None, None, False)"
  shows "roundInvariant t \<and> timerInvariant t"
  using assms by (simp add: roundFields_def roundInvariant_def timerInvariant_def)

lemma roundFields_handleStartGame:
  "roundFields (handleStartGame env endTimeUnix gameId s) = roundFields s
   \<or> (\<exists>endSec. nowSecOf env < endSec
        \<and> roundFields (handleStartGame env endTimeUnix gameId s) =
            (Running, Some gameId, Some (nowSecOf env), Some endSec, timerRef s))"
  by (simp add: roundFields_def handleStartGame_def beginGameWithEndTime_def isFinite_def
      jsLessEq_def sendMessage_def tryStorage_def Let_def split: option.splits)

lemma inv_of_step:
  assumes "roundInvariant s" and "timerInvariant s" and "keepsEndAfterStart env e s"
  shows "roundInvariant (step env e s) \<and> timerInvariant (step env e s)"
proof (cases "touchesRound e")
  case False
  then have "roundFields (step env e s) = roundFields s"
    by (rule roundFields_step)
  then show ?thesis
    using assms(1,2) invariants_read_roundFields [of "step env e s" s]
    by simp
next
  case True
  show ?thesis
  proof (cases e)
    case (Receive msg)
    then show ?thesis using assms inv_of_handleIncomingMessage [of s env msg]
      by (simp add: step_def)
  next
    case (ClickStartGame endTimeUnix gameId)
    have "roundInvariant (handleStartGame env endTimeUnix gameId s)
        \<and> timerInvariant (handleStartGame env endTimeUnix gameId s)"
      using roundFields_handleStartGame [of env endTimeUnix gameId s] assms(1,2)
        invariants_read_roundFields [of "handleStartGame env endTimeUnix gameId s" s]
      by (auto simp add: roundFields_def roundInvariant_def timerInvariant_def)
    then show ?thesis using ClickStartGame by (simp add: step_def)
  next
    case ClickStartNewRound
    then show ?thesis using inv_of_idle [OF roundFields_resets(1)] by (simp add: step_def)
  next
    case ClickDiscardFromBanner
    then show ?thesis using inv_of_idle [OF roundFields_resets(2)] by (simp add: step_def)
  next
    case Unmount
    then show ?thesis using inv_of_idle [OF roundFields_resets(3)] by (simp add: step_def)
  next
    case (IntervalTick endSec)
    then show ?thesis using assms
      by (auto simp add: roundInvariant_def timerInvariant_def step_def updateRemaining_def Let_def
          split: option.splits if_splits)
  next
    case RoundTimerEffect
    then show ?thesis using assms
      by (auto simp add: roundInvariant_def timerInvariant_def step_def roundTimerEffect_def updateRemaining_def Let_def
          split: option.splits if_splits)
  next
    case ClickAcceptEndChange
    then show ?thesis using assms
      by (auto simp add: roundInvariant_def timerInvariant_def step_def handleAcceptIncomingEndChange_def applyEndTimeUpdate_def keepsEndAfterStart_def afterStart_def truthyStr_def sendMessage_def Let_def
          split: option.splits if_splits)
  next
    case ClickAcceptEndNow
    then show ?thesis using assms
      by (auto simp add: roundInvariant_def timerInvariant_def step_def handleAcceptIncomingEndNow_def applyImmediateEndLocal_def keepsEndAfterStart_def afterStart_def truthyStr_def sendMessage_def Let_def
          split: option.splits if_splits)
  qed (insert True, simp_all add: touchesRound_def)
qed


lemma round_of_handleIncomingMessage:
  assumes "\<not> adoptsOrRestarts (Receive msg) r" and "currentRoundId s = Some r"
    and "currentRoundId (handleIncomingMessage env msg s) = Some r"
  shows "gameState (handleIncomingMessage env msg s) = gameState s
       \<or> gameState (handleIncomingMessage env msg s) = Ended"
proof (cases "touchesRound (Receive msg)")
  case False
  then have "roundFields (handleIncomingMessage env msg s) = roundFields s"
    by (rule roundFields_handleIncomingMessage)
  then show ?thesis by (simp add: roundFields_def)
next
  case True
  show ?thesis
  proof (cases msg)
    case (Start roundId endTime roles)
    then show ?thesis using assms
      by (auto simp add: adoptsOrRestarts_def handleIncomingMessage_def Let_def
          beginGameWithEndTime_def isFinite_def jsLessEq_def split: if_splits JsNumber.splits)
  next
    case (StateSnapshot x payload)
    then show ?thesis using assms
      by (auto simp add: adoptsOrRestarts_def handleIncomingMessage_def
          hydrateStateFromSnapshot_def tryStorage_def Let_def split: if_splits)
  next
    case (AcceptEndChange roundId proposedEndTime)
    then show ?thesis by (simp add: handleIncomingMessage_def applyEndTimeUpdate_def)
  next
    case (AcceptEndNow roundId)
    then show ?thesis
      by (simp add: handleIncomingMessage_def applyImmediateEndLocal_def Let_def)
  qed (insert True, simp_all add: touchesRound_def)
qed

lemma round_of_step:
  assumes "\<not> adoptsOrRestarts e r" and "currentRoundId s = Some r"
    and "currentRoundId (step env e s) = Some r"
  shows "gameState (step env e s) = gameState s \<or> gameState (step env e s) = Ended"
proof (cases "touchesRound e")
  case False
  then have "roundFields (step env e s) = roundFields s"
    by (rule roundFields_step)
  then show ?thesis by (simp add: roundFields_def)
next
  case True
  show ?thesis
  proof (cases e)
    case (Receive msg)
    then show ?thesis using assms round_of_handleIncomingMessage [of msg r s env]
      by (simp add: step_def)
  next
    case (ClickStartGame endTimeUnix gameId)
    then show ?thesis
      using assms roundFields_handleStartGame [of env endTimeUnix gameId s]
      by (auto simp add: step_def adoptsOrRestarts_def roundFields_def)
  next
    case ClickStartNewRound
    then show ?thesis using assms(3) roundFields_resets(1) [of env s]
      by (simp add: step_def roundFields_def)
  next
    case ClickDiscardFromBanner
    then show ?thesis using assms(3) roundFields_resets(2) [of env s]
      by (simp add: step_def roundFields_def)
  next
    case Unmount
    then show ?thesis using assms(3) roundFields_resets(3) [of env s]
      by (simp add: step_def roundFields_def)
  next
    case (IntervalTick endSec)
    then show ?thesis
      by (auto simp add: step_def updateRemaining_def Let_def split: option.splits)
  next
    case RoundTimerEffect
    then show ?thesis
      by (auto simp add: step_def roundTimerEffect_def updateRemaining_def Let_def split: option.splits)
  next
    case ClickAcceptEndChange
    then show ?thesis
      by (auto simp add: step_def handleAcceptIncomingEndChange_def applyEndTimeUpdate_def sendMessage_def Let_def split: option.splits)
  next
    case ClickAcceptEndNow
    then show ?thesis
      by (auto simp add: step_def handleAcceptIncomingEndNow_def applyImmediateEndLocal_def sendMessage_def Let_def split: option.splits)
  qed (insert True, simp_all add: touchesRound_def)
qed

text \<open>
  Claim C4, amended. Take any state whose current round has the id \<open>r\<close> and any event
  other than a received snapshot of round \<open>r\<close> and a start, received or local, that
  carries the id \<open>r\<close> again. If the round id is still \<open>r\<close> after the event, the
  state of the round is what it was or has become \<open>Ended\<close>: it never moves backward,
  and an ended round stays ended. (The step from \<open>Idle\<close> to \<open>Running\<close> is the
  start of a round, which gives the round its id.)
\<close>

theorem round_state_never_moves_backward:
  assumes "\<not> adoptsOrRestarts e r" and "currentRoundId s = Some r"
    and "currentRoundId (step env e s) = Some r"
  shows "(gameState (step env e s) = gameState s \<or> gameState (step env e s) = Ended)
       \<and> stateRank (gameState s) \<le> stateRank (gameState (step env e s))"
proof -
  have "gameState (step env e s) = gameState s \<or> gameState (step env e s) = Ended"
    by (rule round_of_step [OF assms])
  then show ?thesis by (auto simp add: stateRank_def split: GameState.splits)
qed

theorem round_state_never_moves_backward_witness:
  "\<not> adoptsOrRestarts (Receive (AcceptEndNow ''r1'')) ''r1''
   \<and> currentRoundId runningApp = Some ''r1''
   \<and> currentRoundId (step (envAt 1200) (Receive (AcceptEndNow ''r1'')) runningApp) = Some ''r1''
   \<and> gameState runningApp = Running
   \<and> gameState (step (envAt 1200) (Receive (AcceptEndNow ''r1'')) runningApp) = Ended
   \<and> stateRank (gameState runningApp)
       \<le> stateRank (gameState (step (envAt 1200) (Receive (AcceptEndNow ''r1'')) runningApp))"
  using round_state_never_moves_backward
    [of "Receive (AcceptEndNow ''r1'')" "''r1''" runningApp "envAt 1200"]
  by (simp add: adoptsOrRestarts_def runningApp_fields step_def handleIncomingMessage_def
      truthyStr_def applyImmediateEndLocal_def Let_def)

text \<open>
  The claim as written fails for two events that keep the round id: a received
  snapshot of the current round is adopted whatever state it carries, so a peer whose
  round has ended runs it again when the other peer's snapshot still says \<open>Running\<close>;
  and a received start that carries the id of the current round starts it again.
\<close>

theorem ended_round_runs_again_counterexample:
  "currentRoundId endedApp = Some ''r1'' \<and> gameState endedApp = Ended
   \<and> currentRoundId (step (envAt 1650) (Receive (StateSnapshot ''r1'' snapshotOfR1)) endedApp) =
       Some ''r1''
   \<and> gameState (step (envAt 1650) (Receive (StateSnapshot ''r1'' snapshotOfR1)) endedApp) = Running
   \<and> currentRoundId (step (envAt 1800) (Receive (Start ''r1'' (Whole 2400) None)) endedApp) = Some ''r1''
   \<and> gameState (step (envAt 1800) (Receive (Start ''r1'' (Whole 2400) None)) endedApp) = Running"
  by (simp add: endedApp_fields step_def handleIncomingMessage_def truthyStr_def
      hydrateStateFromSnapshot_def snapshotOfR1_def beginGameWithEndTime_def isFinite_def
      jsLessEq_def tryStorage_def Let_def envAt_def nowSecOf_def)

text \<open>
  Claim C5, amended. A round that is not idle has its end time strictly after its
  start time, and this is preserved along every run of events in which
  \<^item> every accepted change of the end time that applies, received or accepted locally,
    carries an end time after the start time of the round,
  \<^item> every immediate end that applies happens in a later second than the start, and
  \<^item> every received snapshot that is adopted is of a started round with its end after
    its start.
  Every start of a round, received or local, establishes the invariant by its own
  check; the other handlers write neither time. (The statement carries a second
  invariant, that the round timer is pending only for a started round, which the same
  runs preserve.)
\<close>

theorem end_after_start_preserved:
  assumes "roundInvariant s" and "timerInvariant s" and "allKeepEndAfterStart es s"
  shows "roundInvariant (run es s) \<and> timerInvariant (run es s)"
  using assms
proof (induction es arbitrary: s)
  case Nil
  then show ?case by simp
next
  case (Cons a es)
  obtain env e where a: "a = (env, e)" by (cases a)
  have keep: "keepsEndAfterStart env e s" and rest: "allKeepEndAfterStart es (step env e s)"
    using Cons.prems(3) a by simp_all
  have "roundInvariant (step env e s) \<and> timerInvariant (step env e s)"
    by (rule inv_of_step [OF Cons.prems(1) Cons.prems(2) keep])
  then show ?case using Cons.IH [of "step env e s"] rest a by simp
qed

theorem end_after_start_preserved_witness:
  "allKeepEndAfterStart
     [(envAt 1000, Receive (Start ''r1'' (Whole 1600) None)),
      (envAt 1100, Receive (AcceptEndChange ''r1'' 1500)),
      (envAt 1200, Receive (AcceptEndNow ''r1''))] initialApp
   \<and> roundInvariant
       (run [(envAt 1000, Receive (Start ''r1'' (Whole 1600) None)),
             (envAt 1100, Receive (AcceptEndChange ''r1'' 1500)),
             (envAt 1200, Receive (AcceptEndNow ''r1''))] initialApp)
   \<and> endTimeSec
       (run [(envAt 1000, Receive (Start ''r1'' (Whole 1600) None)),
             (envAt 1100, Receive (AcceptEndChange ''r1'' 1500)),
             (envAt 1200, Receive (AcceptEndNow ''r1''))] initialApp) = Some 1200"
  using end_after_start_preserved
    [of initialApp "[(envAt 1000, Receive (Start ''r1'' (Whole 1600) None)),
      (envAt 1100, Receive (AcceptEndChange ''r1'' 1500)),
      (envAt 1200, Receive (AcceptEndNow ''r1''))]"]
  by (simp add: roundInvariant_def timerInvariant_def keepsEndAfterStart_def forCurrentRound_def
      afterStart_def step_def handleIncomingMessage_def truthyStr_def beginGameWithEndTime_def
      isFinite_def jsLessEq_def applyEndTimeUpdate_def applyImmediateEndLocal_def tryStorage_def Let_def envAt_def
      nowSecOf_def initialApp_def)

text \<open>
  The claim as written fails for the two operations it names: a received
  \<open>acceptEndChange\<close> is applied without any check of its end time, here 900 for a round
  that started at 1000; and an immediate end accepted in the second of the start sets
  the end time equal to the start time. An adopted snapshot brings its times as they
  are, too.
\<close>

theorem end_not_after_start_counterexample:
  "roundInvariant runningApp \<and> timerInvariant runningApp
   \<and> \<not> roundInvariant (step (envAt 1200) (Receive (AcceptEndChange ''r1'' 900)) runningApp)
   \<and> \<not> roundInvariant (step (envAt 1000) (Receive (AcceptEndNow ''r1'')) runningApp)
   \<and> \<not> roundInvariant
         (step (envAt 1200)
            (Receive (StateSnapshot ''r1'' (snapshotOfR1\<lparr>snapEndTimeSec := 900\<rparr>))) runningApp)"
  by (simp add: roundInvariant_def timerInvariant_def runningApp_fields step_def
      handleIncomingMessage_def truthyStr_def applyEndTimeUpdate_def applyImmediateEndLocal_def
      Let_def envAt_def nowSecOf_def runningApp_def initialApp_def syncRef_def
      beginGameWithEndTime_def isFinite_def jsLessEq_def ensureRoleFromSessionRoles_def
      tryStorage_def hydrateStateFromSnapshot_def snapshotOfR1_def)

section \<open>The retries of the role assignment\<close>

lemma retry_frame_tryStorage [simp]:
  "assignRolesRetryCountRef (tryStorage env body s) = assignRolesRetryCountRef s"
  "hasSentAssignRolesRef (tryStorage env body s) = hasSentAssignRolesRef s"
  "assignRolesRetryTimerRef (tryStorage env body s) = assignRolesRetryTimerRef s"
  "dataChannelRef (tryStorage env body s) = dataChannelRef s"
  "outbox (tryStorage env body s) = outbox s"
  by (simp_all add: tryStorage_def)

lemma retry_frame_beginGameWithEndTime [simp]:
  "assignRolesRetryCountRef (beginGameWithEndTime roundId startSec endSec s) = assignRolesRetryCountRef s"
  "hasSentAssignRolesRef (beginGameWithEndTime roundId startSec endSec s) = hasSentAssignRolesRef s"
  "assignRolesRetryTimerRef (beginGameWithEndTime roundId startSec endSec s) = assignRolesRetryTimerRef s"
  "dataChannelRef (beginGameWithEndTime roundId startSec endSec s) = dataChannelRef s"
  "outbox (beginGameWithEndTime roundId startSec endSec s) = outbox s"
  by (simp_all add: beginGameWithEndTime_def split: JsNumber.splits)

lemma retry_frame_ensureRoleFromSessionRoles [simp]:
  "assignRolesRetryCountRef (ensureRoleFromSessionRoles reason s) = assignRolesRetryCountRef s"
  "hasSentAssignRolesRef (ensureRoleFromSessionRoles reason s) = hasSentAssignRolesRef s"
  "assignRolesRetryTimerRef (ensureRoleFromSessionRoles reason s) = assignRolesRetryTimerRef s"
  "dataChannelRef (ensureRoleFromSessionRoles reason s) = dataChannelRef s"
  "outbox (ensureRoleFromSessionRoles reason s) = outbox s"
  by (simp_all add: ensureRoleFromSessionRoles_def Let_def split: option.splits)

lemma retry_frame_applyVote [simp]:
  "assignRolesRetryCountRef (applyVote tgt el s) = assignRolesRetryCountRef s"
  "hasSentAssignRolesRef (applyVote tgt el s) = hasSentAssignRolesRef s"
  "assignRolesRetryTimerRef (applyVote tgt el s) = assignRolesRetryTimerRef s"
  "dataChannelRef (applyVote tgt el s) = dataChannelRef s"
  "outbox (applyVote tgt el s) = outbox s"
  by (simp_all add: applyVote_def)

lemma retry_frame_applyEndTimeUpdate [simp]:
  "assignRolesRetryCountRef (applyEndTimeUpdate t s) = assignRolesRetryCountRef s"
  "hasSentAssignRolesRef (applyEndTimeUpdate t s) = hasSentAssignRolesRef s"
  "assignRolesRetryTimerRef (applyEndTimeUpdate t s) = assignRolesRetryTimerRef s"
  "dataChannelRef (applyEndTimeUpdate t s) = dataChannelRef s"
  "outbox (applyEndTimeUpdate t s) = outbox s"
  by (simp_all add: applyEndTimeUpdate_def)

lemma retry_frame_applyImmediateEndLocal [simp]:
  "assignRolesRetryCountRef (applyImmediateEndLocal env s) = assignRolesRetryCountRef s"
  "hasSentAssignRolesRef (applyImmediateEndLocal env s) = hasSentAssignRolesRef s"
  "assignRolesRetryTimerRef (applyImmediateEndLocal env s) = assignRolesRetryTimerRef s"
  "dataChannelRef (applyImmediateEndLocal env s) = dataChannelRef s"
  "outbox (applyImmediateEndLocal env s) = outbox s"
  by (simp_all add: applyImmediateEndLocal_def Let_def)

lemma retry_frame_updateRemaining [simp]:
  "assignRolesRetryCountRef (updateRemaining env endSec s) = assignRolesRetryCountRef s"
  "hasSentAssignRolesRef (updateRemaining env endSec s) = hasSentAssignRolesRef s"
  "assignRolesRetryTimerRef (updateRemaining env endSec s) = assignRolesRetryTimerRef s"
  "dataChannelRef (updateRemaining env endSec s) = dataChannelRef s"
  "outbox (updateRemaining env endSec s) = outbox s"
  by (simp_all add: updateRemaining_def Let_def)

lemma retry_frame_resetGameState [simp]:
  "assignRolesRetryCountRef (resetGameState env s) = assignRolesRetryCountRef s"
  "hasSentAssignRolesRef (resetGameState env s) = hasSentAssignRolesRef s"
  "assignRolesRetryTimerRef (resetGameState env s) = assignRolesRetryTimerRef s"
  "dataChannelRef (resetGameState env s) = dataChannelRef s"
  "outbox (resetGameState env s) = outbox s"
  by (simp_all add: resetGameState_def tryStorage_def Let_def)

lemma retry_frame_hydrateStateFromSnapshot [simp]:
  "assignRolesRetryCountRef (hydrateStateFromSnapshot env snapshot offline s) = assignRolesRetryCountRef s"
  "hasSentAssignRolesRef (hydrateStateFromSnapshot env snapshot offline s) = hasSentAssignRolesRef s"
  "assignRolesRetryTimerRef (hydrateStateFromSnapshot env snapshot offline s) = assignRolesRetryTimerRef s"
  "dataChannelRef (hydrateStateFromSnapshot env snapshot offline s) = dataChannelRef s"
  "outbox (hydrateStateFromSnapshot env snapshot offline s) = outbox s"
  by (simp_all add: hydrateStateFromSnapshot_def tryStorage_def Let_def)

lemma retry_frame_persistSnapshot [simp]:
  "assignRolesRetryCountRef (snd (persistSnapshot env s)) = assignRolesRetryCountRef s"
  "hasSentAssignRolesRef (snd (persistSnapshot env s)) = hasSentAssignRolesRef s"
  "assignRolesRetryTimerRef (snd (persistSnapshot env s)) = assignRolesRetryTimerRef s"
  "dataChannelRef (snd (persistSnapshot env s)) = dataChannelRef s"
  "outbox (snd (persistSnapshot env s)) = outbox s"
  by (simp_all add: persistSnapshot_def Let_def split: option.splits)

lemma retry_frame_upsertHistoryIndex [simp]:
  "assignRolesRetryCountRef (upsertHistoryIndex env snapshot s) = assignRolesRetryCountRef s"
  "hasSentAssignRolesRef (upsertHistoryIndex env snapshot s) = hasSentAssignRolesRef s"
  "assignRolesRetryTimerRef (upsertHistoryIndex env snapshot s) = assignRolesRetryTimerRef s"
  "dataChannelRef (upsertHistoryIndex env snapshot s) = dataChannelRef s"
  "outbox (upsertHistoryIndex env snapshot s) = outbox s"
  by (simp_all add: upsertHistoryIndex_def tryStorage_def Let_def)

lemma retry_frame_sendMessage [simp]:
  "assignRolesRetryCountRef (sendMessage env msg s) = assignRolesRetryCountRef s"
  "hasSentAssignRolesRef (sendMessage env msg s) = hasSentAssignRolesRef s"
  "assignRolesRetryTimerRef (sendMessage env msg s) = assignRolesRetryTimerRef s"
  "dataChannelRef (sendMessage env msg s) = dataChannelRef s"
  by (simp_all add: sendMessage_def)

lemma retry_frame_sendMessage_outbox [simp]:
  "\<not> isAssignRoles msg \<Longrightarrow>
     filter isAssignRoles (outbox (sendMessage env msg s)) = filter isAssignRoles (outbox s)"
  by (simp add: sendMessage_def)

lemma persistEffect_by_parts:
  "persistEffect env s =
     (if \<not> truthyStr (currentRoundId s) \<or> \<not> truthyNum (startTimeSec s)
         \<or> \<not> truthyNum (endTimeSec s) \<or> lockedRole s = None then s
      else if gameState s = Idle then s
      else case fst (persistSnapshot env s) of
             None \<Rightarrow> snd (persistSnapshot env s)
           | Some snapshot \<Rightarrow>
               if snapGameState snapshot = Ended
               then upsertHistoryIndex env snapshot (snd (persistSnapshot env s))
               else snd (persistSnapshot env s))"
  by (simp add: persistEffect_def split: prod.splits option.splits)

lemmas retry_defs = retryFields_def assignRolesSent_def isAssignRoles_def

lemma retryFields_handleIncomingMessage:
  assumes "\<not> touchesRetry (Receive msg)"
  shows "retryFields (handleIncomingMessage env msg s) = retryFields s"
proof (cases msg)
  case (Start roundId endTime roles)
  then show ?thesis
    by (simp add: retry_defs handleIncomingMessage_def Let_def split: option.splits)
next
  case (Vote roundId tgt atSec)
  then show ?thesis
    by (simp add: retry_defs handleIncomingMessage_def Let_def split: option.splits)
next
  case (AssignRoles sid hr gr)
  then show ?thesis
    by (simp add: retry_defs handleIncomingMessage_def Let_def)
next
  case (AssignRolesAck sid r)
  then show ?thesis using assms by (simp add: touchesRetry_def)
next
  case (StateSnapshot x payload)
  then show ?thesis
    by (simp add: retry_defs handleIncomingMessage_def Let_def)
qed (simp_all add: retry_defs handleIncomingMessage_def Let_def)

lemma retryFields_step:
  assumes "\<not> touchesRetry e"
  shows "retryFields (step env e s) = retryFields s"
proof (cases e)
  case (Receive msg)
  then show ?thesis using assms retryFields_handleIncomingMessage [of msg env s]
    by (simp add: step_def touchesRetry_def)
next
  case (SyncRef c)
  then show ?thesis by (cases c) (simp_all add: retry_defs step_def syncRef_def)
next
  case PersistEffect
  then show ?thesis
    by (simp add: retry_defs step_def persistEffect_by_parts split: option.splits)
next
  case (IntervalTick endSec)
  then show ?thesis
    by (simp add: retry_defs step_def  Let_def
        split: option.splits Stored.splits)
next
  case NoticeTimeout
  then show ?thesis
    by (simp add: retry_defs step_def  Let_def
        split: option.splits Stored.splits)
next
  case RoundTimerEffect
  then show ?thesis
    by (simp add: retry_defs step_def roundTimerEffect_def Let_def
        split: option.splits Stored.splits)
next
  case RoundEndedEffect
  then show ?thesis
    by (simp add: retry_defs step_def roundEndedEffect_def Let_def
        split: option.splits Stored.splits)
next
  case SnapshotPushEffect
  then show ?thesis
    by (simp add: retry_defs step_def snapshotPushEffect_def Let_def
        split: option.splits Stored.splits)
next
  case (ClickStartGame endTimeUnix gameId)
  then show ?thesis
    by (simp add: retry_defs step_def handleStartGame_def Let_def
        split: option.splits Stored.splits)
next
  case ClickVote
  then show ?thesis
    by (simp add: retry_defs step_def handleVote_def Let_def
        split: option.splits Stored.splits)
next
  case (ClickProposeEndChange proposedUnix)
  then show ?thesis
    by (simp add: retry_defs step_def handleProposeEndChange_def Let_def
        split: option.splits Stored.splits)
next
  case ClickProposeEndNow
  then show ?thesis
    by (simp add: retry_defs step_def handleProposeEndNow_def Let_def
        split: option.splits Stored.splits)
next
  case ClickAcceptEndChange
  then show ?thesis
    by (simp add: retry_defs step_def handleAcceptIncomingEndChange_def Let_def
        split: option.splits Stored.splits)
next
  case ClickRejectEndChange
  then show ?thesis
    by (simp add: retry_defs step_def handleRejectIncomingEndChange_def Let_def
        split: option.splits Stored.splits)
next
  case ClickAcceptEndNow
  then show ?thesis
    by (simp add: retry_defs step_def handleAcceptIncomingEndNow_def Let_def
        split: option.splits Stored.splits)
next
  case ClickRejectEndNow
  then show ?thesis
    by (simp add: retry_defs step_def handleRejectIncomingEndNow_def Let_def
        split: option.splits Stored.splits)
next
  case (ClickSelectRole role)
  then show ?thesis
    by (simp add: retry_defs step_def handleSelectRole_def Let_def
        split: option.splits Stored.splits)
next
  case ClickDiscardFromBanner
  then show ?thesis
    by (simp add: retry_defs step_def handleDiscardSnapshotFromBanner_def Let_def
        split: option.splits Stored.splits)
next
  case ClickDiscardFromStats
  then show ?thesis
    by (simp add: retry_defs step_def handleDiscardSnapshotFromStats_def Let_def
        split: option.splits Stored.splits)
next
  case (ClickDeleteHistoryGame gid onDisplay)
  then show ?thesis
    by (simp add: retry_defs step_def handleDeleteHistoryGame_def Let_def
        split: option.splits Stored.splits)
next
  case (ClickLoadHistoryGame gid)
  then show ?thesis
    by (simp add: retry_defs step_def handleLoadHistoryGame_def Let_def
        split: option.splits Stored.splits)
next
  case ClickExitHistoryView
  then show ?thesis
    by (simp add: retry_defs step_def handleExitHistoryView_def Let_def
        split: option.splits Stored.splits)
next
  case (ClickChangeConnectionMode mode)
  then show ?thesis
    by (simp add: retry_defs step_def  Let_def
        split: option.splits Stored.splits)
next
  case ChannelErrored
  then show ?thesis
    by (simp add: retry_defs step_def onChannelError_def Let_def
        split: option.splits Stored.splits)
next
  case PeerConnected
  then show ?thesis
    by (simp add: retry_defs step_def onPeerConnected_def Let_def
        split: option.splits Stored.splits)
next
  case (PeerFailed ice)
  then show ?thesis
    by (simp add: retry_defs step_def onPeerFailed_def Let_def
        split: option.splits Stored.splits)
next
  case RetryTimeout
  then show ?thesis using assms by (simp add: touchesRetry_def)
next
  case AssignRolesEffect
  then show ?thesis using assms by (simp add: touchesRetry_def)
next
  case ClickStartNewRound
  then show ?thesis using assms by (simp add: touchesRetry_def)
next
  case (ClickCreateOffer offerOk)
  then show ?thesis using assms by (simp add: touchesRetry_def)
next
  case (ClickApplyOfferAndCreateAnswer outcome)
  then show ?thesis using assms by (simp add: touchesRetry_def)
next
  case DataChannelArrived
  then show ?thesis using assms by (simp add: touchesRetry_def)
next
  case ChannelOpened
  then show ?thesis using assms by (simp add: touchesRetry_def)
next
  case ChannelClosed
  then show ?thesis using assms by (simp add: touchesRetry_def)
next
  case Unmount
  then show ?thesis using assms by (simp add: touchesRetry_def)
qed


lemma sendAssignRolesOnce_retry:
  "assignRolesRetryCountRef (snd (sendAssignRolesOnce env s)) = assignRolesRetryCountRef s"
  "assignRolesRetryTimerRef (snd (sendAssignRolesOnce env s)) = assignRolesRetryTimerRef s"
  "dataChannelRef (snd (sendAssignRolesOnce env s)) = dataChannelRef s"
  "fst (sendAssignRolesOnce env s) \<Longrightarrow> dataChannelRef s = Some Open"
  "fst (sendAssignRolesOnce env s) \<Longrightarrow> hasSentAssignRolesRef (snd (sendAssignRolesOnce env s))"
  "fst (sendAssignRolesOnce env s) \<Longrightarrow>
     assignRolesSent (snd (sendAssignRolesOnce env s)) = Suc (assignRolesSent s)"
  "\<not> fst (sendAssignRolesOnce env s) \<Longrightarrow>
     hasSentAssignRolesRef (snd (sendAssignRolesOnce env s)) = hasSentAssignRolesRef s"
  "\<not> fst (sendAssignRolesOnce env s) \<Longrightarrow>
     assignRolesSent (snd (sendAssignRolesOnce env s)) = assignRolesSent s"
  by (auto simp add: sendAssignRolesOnce_def assignRolesSent_def isAssignRoles_def Let_def
      split: option.splits if_splits)

lemma retryTimeout_by_parts:
  "retryTimeout env s =
     (if \<not> assignRolesRetryTimerRef s then s
      else if rolesConfirmedRef s \<or> 3 \<le> assignRolesRetryCountRef s \<or> dataChannelRef s \<noteq> Some Open
      then s\<lparr>assignRolesRetryTimerRef := False\<rparr>
      else if fst (sendAssignRolesOnce env (s\<lparr>assignRolesRetryTimerRef := False\<rparr>))
      then (snd (sendAssignRolesOnce env (s\<lparr>assignRolesRetryTimerRef := False\<rparr>)))
             \<lparr>assignRolesRetryCountRef := jsPlus (assignRolesRetryCountRef s) 1,
              assignRolesRetryTimerRef := True\<rparr>
      else snd (sendAssignRolesOnce env (s\<lparr>assignRolesRetryTimerRef := False\<rparr>)))"
proof -
  obtain ok s1 where res: "sendAssignRolesOnce env (s\<lparr>assignRolesRetryTimerRef := False\<rparr>) = (ok, s1)"
    by (cases "sendAssignRolesOnce env (s\<lparr>assignRolesRetryTimerRef := False\<rparr>)")
  have count: "assignRolesRetryCountRef s1 = assignRolesRetryCountRef s"
    using sendAssignRolesOnce_retry(1) [of env "s\<lparr>assignRolesRetryTimerRef := False\<rparr>"] res
    by simp
  show ?thesis
    by (cases ok)
      (simp_all add: retryTimeout_def scheduleRetry_def clearAssignRolesRetryTimer_def Let_def
        res count)
qed

lemma assignRolesEffect_by_parts:
  "assignRolesEffect env s =
     (if connectionStatus s \<noteq> Connected
      then s\<lparr>assignRolesRetryTimerRef := False, assignRolesRetryCountRef := 0,
             rolesConfirmed := False, rolesConfirmedRef := False\<rparr>
      else if connectionModeRef s \<noteq> Offer \<or> lockedRole s = None
              \<or> (0 < assignRolesRetryCountRef s \<and> hasSentAssignRolesRef s) then s
      else if fst (sendAssignRolesOnce env s)
      then (snd (sendAssignRolesOnce env s))
             \<lparr>assignRolesRetryCountRef := 1, rolesConfirmedRef := False, rolesConfirmed := False,
              assignRolesRetryTimerRef := True\<rparr>
      else snd (sendAssignRolesOnce env s))"
proof -
  obtain ok s1 where res: "sendAssignRolesOnce env s = (ok, s1)"
    by (cases "sendAssignRolesOnce env s")
  show ?thesis
    by (cases ok)
      (auto simp add: assignRolesEffect_def scheduleRetry_def clearAssignRolesRetryTimer_def res)
qed

lemma assignRolesSent_update [simp]:
  "assignRolesSent (s\<lparr>assignRolesRetryCountRef := c\<rparr>) = assignRolesSent s"
  "assignRolesSent (s\<lparr>assignRolesRetryTimerRef := b\<rparr>) = assignRolesSent s"
  "assignRolesSent (s\<lparr>rolesConfirmedRef := b\<rparr>) = assignRolesSent s"
  "assignRolesSent (s\<lparr>rolesConfirmed := b\<rparr>) = assignRolesSent s"
  "assignRolesSent (s\<lparr>dataChannelRef := d\<rparr>) = assignRolesSent s"
  by (simp_all add: assignRolesSent_def)

lemma attempt_starts:
  assumes "assignRolesSent (assignRolesEffect env s) = Suc (assignRolesSent s)"
  shows "attemptInvariant (assignRolesSent s) (assignRolesEffect env s)"
proof -
  have sent: "fst (sendAssignRolesOnce env s)"
    and branch: "connectionStatus s = Connected"
      "\<not> (connectionModeRef s \<noteq> Offer \<or> lockedRole s = None
          \<or> (0 < assignRolesRetryCountRef s \<and> hasSentAssignRolesRef s))"
    using assms sendAssignRolesOnce_retry(8) [of env s]
    by (auto simp add: assignRolesEffect_by_parts split: if_splits)
  show ?thesis
    using sent branch sendAssignRolesOnce_retry(5,6) [OF sent]
    by (auto simp add: assignRolesEffect_by_parts attemptInvariant_def)
qed


lemma retry_reads_retryFields:
  assumes "retryFields a = retryFields b"
  shows "attemptInvariant base a = attemptInvariant base b"
    and "assignRolesRetryTimerRef a = assignRolesRetryTimerRef b"
    and "channelGone a = channelGone b"
    and "assignRolesSent a = assignRolesSent b"
  using assms by (simp_all add: retryFields_def attemptInvariant_def channelGone_def)

lemma ack_retry:
  "assignRolesRetryCountRef (handleIncomingMessage env (AssignRolesAck sid role) s) =
     assignRolesRetryCountRef s"
  "hasSentAssignRolesRef (handleIncomingMessage env (AssignRolesAck sid role) s) =
     hasSentAssignRolesRef s"
  "dataChannelRef (handleIncomingMessage env (AssignRolesAck sid role) s) = dataChannelRef s"
  "assignRolesSent (handleIncomingMessage env (AssignRolesAck sid role) s) = assignRolesSent s"
  "\<not> assignRolesRetryTimerRef s \<Longrightarrow>
     \<not> assignRolesRetryTimerRef (handleIncomingMessage env (AssignRolesAck sid role) s)"
  "sessionIdRef s = Some sid \<Longrightarrow> sid \<noteq> [] \<Longrightarrow>
     \<not> assignRolesRetryTimerRef (handleIncomingMessage env (AssignRolesAck sid role) s)"
  by (simp_all add: handleIncomingMessage_def clearAssignRolesRetryTimer_def assignRolesSent_def
      split: option.splits)

lemma channel_events_retry:
  "e = ClickCreateOffer offerOk \<or> e = DataChannelArrived \<or> e = ChannelOpened \<or> e = ChannelClosed \<Longrightarrow>
     assignRolesRetryCountRef (step env e s) = assignRolesRetryCountRef s
     \<and> hasSentAssignRolesRef (step env e s) = hasSentAssignRolesRef s
     \<and> assignRolesRetryTimerRef (step env e s) = assignRolesRetryTimerRef s
     \<and> assignRolesSent (step env e s) = assignRolesSent s"
  by (auto simp add: step_def handleCreateOffer_def createPeerConnection_def onDataChannel_def
      onChannelOpen_def onChannelClose_def assignRolesSent_def Let_def split: if_splits)

lemma jsPlus_count: "1 \<le> c \<Longrightarrow> \<not> 3 \<le> c \<Longrightarrow> jsPlus c 1 = c + 1"
  by (rule jsPlus_exact) simp

lemma attempt_step:
  assumes "attemptInvariant base s" and "\<not> endsAttempt e s"
  shows "attemptInvariant base (step env e s)"
    and "\<not> assignRolesRetryTimerRef s \<Longrightarrow>
           \<not> assignRolesRetryTimerRef (step env e s)
           \<and> assignRolesSent (step env e s) = assignRolesSent s"
proof -
  have both: "attemptInvariant base (step env e s)
      \<and> (\<not> assignRolesRetryTimerRef s \<longrightarrow>
           \<not> assignRolesRetryTimerRef (step env e s)
           \<and> assignRolesSent (step env e s) = assignRolesSent s)"
  proof (cases "touchesRetry e")
    case False
    then have "retryFields (step env e s) = retryFields s"
      by (rule retryFields_step)
    then show ?thesis
      using assms(1) retry_reads_retryFields [where a = "step env e s" and b = s] by simp
  next
    case True
    show ?thesis
    proof (cases e)
      case (Receive msg)
      then obtain sid role where msg: "msg = AssignRolesAck sid role"
        using True by (cases msg) (simp_all add: touchesRetry_def)
      show ?thesis
        using assms(1) ack_retry(1-5) [where env = env and sid = sid and role = role and s = s]
        by (simp add: Receive msg step_def attemptInvariant_def)
    next
      case RetryTimeout
      let ?t = "s\<lparr>assignRolesRetryTimerRef := False\<rparr>"
      have facts:
        "fst (sendAssignRolesOnce env ?t) \<Longrightarrow> hasSentAssignRolesRef (snd (sendAssignRolesOnce env ?t))"
        "fst (sendAssignRolesOnce env ?t) \<Longrightarrow>
           assignRolesSent (snd (sendAssignRolesOnce env ?t)) = Suc (assignRolesSent s)"
        "\<not> fst (sendAssignRolesOnce env ?t) \<Longrightarrow>
           hasSentAssignRolesRef (snd (sendAssignRolesOnce env ?t)) = hasSentAssignRolesRef s"
        "\<not> fst (sendAssignRolesOnce env ?t) \<Longrightarrow>
           assignRolesSent (snd (sendAssignRolesOnce env ?t)) = assignRolesSent s"
        "assignRolesRetryCountRef (snd (sendAssignRolesOnce env ?t)) = assignRolesRetryCountRef s"
        using sendAssignRolesOnce_retry [of env ?t] by simp_all
      show ?thesis
        using assms(1) facts
        by (auto simp add: RetryTimeout step_def retryTimeout_by_parts attemptInvariant_def
            jsPlus_count)
    next
      case AssignRolesEffect
      then have "connectionStatus s = Connected"
        using assms(2) by (simp add: endsAttempt_def)
      then have "assignRolesEffect env s = s"
        using assms(1) by (simp add: assignRolesEffect_by_parts attemptInvariant_def)
      then show ?thesis using assms(1) AssignRolesEffect by (simp add: step_def)
    next
      case ClickStartNewRound
      then show ?thesis using assms(2) by (simp add: endsAttempt_def)
    next
      case (ClickApplyOfferAndCreateAnswer outcome)
      then show ?thesis using assms(2) by (simp add: endsAttempt_def)
    next
      case Unmount
      then show ?thesis using assms(2) by (simp add: endsAttempt_def)
    next
      case (ClickCreateOffer offerOk)
      then show ?thesis using assms(1) channel_events_retry [where e = e and env = env and s = s]
        by (simp add: attemptInvariant_def)
    next
      case DataChannelArrived
      then show ?thesis using assms(1) channel_events_retry [where e = e and env = env and s = s]
        by (simp add: attemptInvariant_def)
    next
      case ChannelOpened
      then show ?thesis using assms(1) channel_events_retry [where e = e and env = env and s = s]
        by (simp add: attemptInvariant_def)
    next
      case ChannelClosed
      then show ?thesis using assms(1) channel_events_retry [where e = e and env = env and s = s]
        by (simp add: attemptInvariant_def)
    qed (insert True, simp_all add: touchesRetry_def)
  qed
  show "attemptInvariant base (step env e s)" using both by simp
  show "\<not> assignRolesRetryTimerRef s \<Longrightarrow>
           \<not> assignRolesRetryTimerRef (step env e s)
           \<and> assignRolesSent (step env e s) = assignRolesSent s"
    using both by simp
qed


lemma sendAssignRolesOnce_closed:
  "dataChannelRef s \<noteq> Some Open \<Longrightarrow> sendAssignRolesOnce env s = (False, s)"
  by (simp add: sendAssignRolesOnce_def)

lemma teardown_retry:
  "dataChannelRef (handleStartNewRound env s) = dataChannelRef s"
  "assignRolesSent (handleStartNewRound env s) = assignRolesSent s"
  "dataChannelRef (handleApplyOfferAndCreateAnswer outcome s) = None"
  "assignRolesSent (handleApplyOfferAndCreateAnswer outcome s) = assignRolesSent s"
  "dataChannelRef (cleanupConnection env s) = None"
  "assignRolesSent (cleanupConnection env s) = assignRolesSent s"
  by (simp_all add: handleStartNewRound_def handleApplyOfferAndCreateAnswer_def
      cleanupConnection_def createPeerConnection_def clearSessionAndRoles_def
      resetSessionAndRolesForNewAnswerJoin_def clearAssignRolesRetryTimer_def
      assignRolesSent_def Let_def split: AnswerOutcome.splits)

lemma channel_gone_step:
  assumes "channelGone s" and "\<not> installsChannel e"
  shows "channelGone (step env e s) \<and> assignRolesSent (step env e s) = assignRolesSent s"
proof (cases "touchesRetry e")
  case False
  then have "retryFields (step env e s) = retryFields s"
    by (rule retryFields_step)
  then show ?thesis
    using assms(1) retry_reads_retryFields [where a = "step env e s" and b = s] by simp
next
  case True
  have closed: "dataChannelRef s \<noteq> Some Open" and waiting: "dataChannelRef s \<noteq> Some Connecting"
    using assms(1) by (auto simp add: channelGone_def split: option.splits)
  show ?thesis
  proof (cases e)
    case (Receive msg)
    then obtain sid role where msg: "msg = AssignRolesAck sid role"
      using True by (cases msg) (simp_all add: touchesRetry_def)
    show ?thesis
      using assms(1) ack_retry(3,4) [where env = env and sid = sid and role = role and s = s]
      by (simp add: Receive msg step_def channelGone_def)
  next
    case RetryTimeout
    then show ?thesis
      using assms(1) closed
      by (simp add: step_def retryTimeout_by_parts channelGone_def)
  next
    case AssignRolesEffect
    then show ?thesis
      using assms(1) closed sendAssignRolesOnce_closed [OF closed, of env]
      by (simp add: step_def assignRolesEffect_by_parts channelGone_def)
  next
    case ClickStartNewRound
    then show ?thesis using assms(1) teardown_retry(1,2) [of env s]
      by (simp add: step_def channelGone_def)
  next
    case (ClickApplyOfferAndCreateAnswer outcome)
    then show ?thesis using teardown_retry(3,4) [of outcome s]
      by (simp add: step_def channelGone_def)
  next
    case Unmount
    then show ?thesis using teardown_retry(5,6) [of env s]
      by (simp add: step_def channelGone_def)
  next
    case (ClickCreateOffer offerOk)
    then show ?thesis using assms(2) by (simp add: installsChannel_def)
  next
    case DataChannelArrived
    then show ?thesis using assms(2) by (simp add: installsChannel_def)
  next
    case ChannelOpened
    then show ?thesis using assms(1) waiting by (simp add: step_def onChannelOpen_def)
  next
    case ChannelClosed
    then show ?thesis using assms(1)
      by (simp add: step_def onChannelClose_def channelGone_def)
  qed (insert True, simp_all add: touchesRetry_def)
qed

lemma attempt_run:
  assumes "attemptInvariant base s" and "withinAttempt es s"
  shows "attemptInvariant base (run es s)"
  using assms
proof (induction es arbitrary: s)
  case Nil
  then show ?case by simp
next
  case (Cons a es)
  obtain env e where a: "a = (env, e)" by (cases a)
  have now: "\<not> endsAttempt e s" and later: "withinAttempt es (step env e s)"
    using Cons.prems(2) a by simp_all
  show ?case
    using Cons.IH [OF attempt_step(1) [OF Cons.prems(1) now] later] a by simp
qed

lemma quiet_run:
  assumes "attemptInvariant base s" and "\<not> assignRolesRetryTimerRef s" and "withinAttempt es s"
  shows "assignRolesSent (run es s) = assignRolesSent s"
  using assms
proof (induction es arbitrary: s)
  case Nil
  then show ?case by simp
next
  case (Cons a es)
  obtain env e where a: "a = (env, e)" by (cases a)
  have now: "\<not> endsAttempt e s" and later: "withinAttempt es (step env e s)"
    using Cons.prems(3) a by simp_all
  have inv: "attemptInvariant base (step env e s)"
    by (rule attempt_step(1) [OF Cons.prems(1) now])
  have still: "\<not> assignRolesRetryTimerRef (step env e s)"
    and same: "assignRolesSent (step env e s) = assignRolesSent s"
    using attempt_step(2) [OF Cons.prems(1) now Cons.prems(2), of env] by simp_all
  show ?case
    using Cons.IH [OF inv still later] same a by simp
qed

lemma channel_gone_run:
  assumes "channelGone s" and "noNewChannel es"
  shows "assignRolesSent (run es s) = assignRolesSent s"
  using assms
proof (induction es arbitrary: s)
  case Nil
  then show ?case by simp
next
  case (Cons a es)
  obtain env e where a: "a = (env, e)" by (cases a)
  have now: "\<not> installsChannel e" and later: "noNewChannel es"
    using Cons.prems(2) a by simp_all
  have "channelGone (step env e s)" and "assignRolesSent (step env e s) = assignRolesSent s"
    using channel_gone_step [OF Cons.prems(1) now, of env] by simp_all
  then show ?case using Cons.IH [of "step env e s"] later a by simp
qed

text \<open>
  Claim C3, amended. An attempt begins when the role-assignment effect sends its first
  \<open>assignRoles\<close> and lasts until an event sets the retry counter back to zero: the
  effect finding the connection status other than \<open>Connected\<close>, a new round, joining
  as the answering side, or the teardown. (The session id does not mark an attempt: the
  next attempt sends the same id again.) Within an attempt, whatever events occur and
  whatever the environment does, at most 3 \<open>assignRoles\<close> messages are sent in total.
  Once an \<open>assignRolesAck\<close> that carries the current session id has been handled, no
  further one is sent in the attempt. And from any state whose channel is gone (absent,
  closing or closed), no \<open>assignRoles\<close> is sent by any run of events that does not
  set up a new channel.
\<close>

theorem assign_roles_sent_at_most_three_times:
  assumes "assignRolesSent (assignRolesEffect env0 s0) = Suc (assignRolesSent s0)"
    and "withinAttempt es (assignRolesEffect env0 s0)"
  shows "assignRolesSent (run es (assignRolesEffect env0 s0)) \<le> assignRolesSent s0 + 3
       \<and> (sessionIdRef (run es (assignRolesEffect env0 s0)) = Some sid \<and> sid \<noteq> []
            \<and> withinAttempt es'
                 (handleIncomingMessage env (AssignRolesAck sid role)
                    (run es (assignRolesEffect env0 s0)))
            \<longrightarrow> assignRolesSent
                  (run es' (handleIncomingMessage env (AssignRolesAck sid role)
                              (run es (assignRolesEffect env0 s0)))) =
                assignRolesSent (run es (assignRolesEffect env0 s0)))
       \<and> (channelGone t \<and> noNewChannel es'' \<longrightarrow>
            assignRolesSent (run es'' t) = assignRolesSent t)"
proof -
  let ?mid = "run es (assignRolesEffect env0 s0)"
  have inv: "attemptInvariant (assignRolesSent s0) ?mid"
    by (rule attempt_run [OF attempt_starts [OF assms(1)] assms(2)])
  then have bound: "assignRolesSent ?mid \<le> assignRolesSent s0 + 3"
    by (simp add: attemptInvariant_def)
  have acked: "assignRolesSent (run es' (handleIncomingMessage env (AssignRolesAck sid role) ?mid)) =
                 assignRolesSent ?mid"
    if sid: "sessionIdRef ?mid = Some sid" "sid \<noteq> []"
      and rest: "withinAttempt es' (handleIncomingMessage env (AssignRolesAck sid role) ?mid)"
  proof -
    have "\<not> endsAttempt (Receive (AssignRolesAck sid role)) ?mid"
      by (simp add: endsAttempt_def)
    then have inv': "attemptInvariant (assignRolesSent s0)
                       (handleIncomingMessage env (AssignRolesAck sid role) ?mid)"
      using attempt_step(1) [OF inv, of "Receive (AssignRolesAck sid role)" env]
      by (simp add: step_def)
    have off: "\<not> assignRolesRetryTimerRef (handleIncomingMessage env (AssignRolesAck sid role) ?mid)"
      by (rule ack_retry(6) [OF sid])
    show ?thesis
      using quiet_run [OF inv' off rest]
        ack_retry(4) [where env = env and sid = sid and role = role and s = ?mid]
      by simp
  qed
  have gone: "assignRolesSent (run es'' t) = assignRolesSent t"
    if "channelGone t" "noNewChannel es''"
    using that by (rule channel_gone_run)
  show ?thesis using bound acked gone by blast
qed


theorem assign_roles_sent_at_most_three_times_witness:
  "assignRolesSent (assignRolesEffect (envAt 10) hostReady) = Suc (assignRolesSent hostReady)
   \<and> withinAttempt [(envAt 12, RetryTimeout)] (assignRolesEffect (envAt 10) hostReady)
   \<and> assignRolesSent (run [(envAt 12, RetryTimeout)] (assignRolesEffect (envAt 10) hostReady)) = 2
   \<and> sessionIdRef (run [(envAt 12, RetryTimeout)] (assignRolesEffect (envAt 10) hostReady)) =
       Some ''s-1''
   \<and> assignRolesSent
       (run [(envAt 14, RetryTimeout), (envAt 15, AssignRolesEffect), (envAt 16, RetryTimeout)]
          (handleIncomingMessage (envAt 13) (AssignRolesAck ''s-1'' Blue)
             (run [(envAt 12, RetryTimeout)] (assignRolesEffect (envAt 10) hostReady)))) = 2
   \<and> channelGone (hostReady\<lparr>dataChannelRef := Some Closed\<rparr>)
   \<and> assignRolesSent
       (run [(envAt 20, AssignRolesEffect), (envAt 22, RetryTimeout)]
          (hostReady\<lparr>dataChannelRef := Some Closed\<rparr>)) = 0
   \<and> assignRolesSent
       (run [(envAt 12, RetryTimeout), (envAt 14, RetryTimeout), (envAt 16, RetryTimeout),
             (envAt 18, RetryTimeout)]
          (assignRolesEffect (envAt 10) hostReady)) = 3"
  using assign_roles_sent_at_most_three_times
    [where ?s0.0 = hostReady and ?env0.0 = "envAt 10" and es = "[(envAt 12, RetryTimeout)]"
       and sid = "''s-1''" and role = Blue and env = "envAt 13"
       and es' = "[(envAt 14, RetryTimeout), (envAt 15, AssignRolesEffect), (envAt 16, RetryTimeout)]"
       and t = "hostReady\<lparr>dataChannelRef := Some Closed\<rparr>"
       and es'' = "[(envAt 20, AssignRolesEffect), (envAt 22, RetryTimeout)]"]
  by (simp add: hostReady_def initialApp_def envAt_def assignRolesEffect_def
      sendAssignRolesOnce_def scheduleRetry_def clearAssignRolesRetryTimer_def step_def
      retryTimeout_def handleIncomingMessage_def assignRolesSent_def isAssignRoles_def
      otherRole_def endsAttempt_def channelGone_def installsChannel_def Let_def jsPlus_exact)

text \<open>
  The claim as written fails when the connection status leaves \<open>Connected\<close> and comes
  back while the channel stays open: the effect sets the retry counter back to zero and
  then sends again under the same session id, so that six \<open>assignRoles\<close> messages
  carry one session id; and it does so also after the acknowledgement of that session
  id has been handled.
\<close>

theorem assign_roles_resent_after_reconnect_counterexample:
  "outbox
     (run [(envAt 10, AssignRolesEffect), (envAt 12, RetryTimeout), (envAt 14, RetryTimeout),
           (envAt 15, PeerFailed False), (envAt 15, AssignRolesEffect),
           (envAt 16, PeerConnected), (envAt 16, AssignRolesEffect),
           (envAt 18, RetryTimeout), (envAt 20, RetryTimeout)] hostReady) =
     [AssignRoles ''s-1'' Red Blue, AssignRoles ''s-1'' Red Blue, AssignRoles ''s-1'' Red Blue,
      AssignRoles ''s-1'' Red Blue, AssignRoles ''s-1'' Red Blue, AssignRoles ''s-1'' Red Blue]
   \<and> dataChannelRef
       (run [(envAt 10, AssignRolesEffect), (envAt 12, RetryTimeout), (envAt 14, RetryTimeout),
             (envAt 15, PeerFailed False), (envAt 15, AssignRolesEffect),
             (envAt 16, PeerConnected), (envAt 16, AssignRolesEffect),
             (envAt 18, RetryTimeout), (envAt 20, RetryTimeout)] hostReady) = Some Open
   \<and> sessionIdRef (run [(envAt 10, AssignRolesEffect)] hostReady) = Some ''s-1''
   \<and> rolesConfirmedRef
       (run [(envAt 10, AssignRolesEffect), (envAt 11, Receive (AssignRolesAck ''s-1'' Blue))]
          hostReady)
   \<and> outbox
       (run [(envAt 10, AssignRolesEffect), (envAt 11, Receive (AssignRolesAck ''s-1'' Blue))]
          hostReady) = [AssignRoles ''s-1'' Red Blue]
   \<and> outbox
       (run [(envAt 10, AssignRolesEffect), (envAt 11, Receive (AssignRolesAck ''s-1'' Blue)),
             (envAt 15, PeerFailed False), (envAt 15, AssignRolesEffect),
             (envAt 16, PeerConnected), (envAt 16, AssignRolesEffect)] hostReady) =
       [AssignRoles ''s-1'' Red Blue, AssignRoles ''s-1'' Red Blue]"
  by (simp add: hostReady_def initialApp_def envAt_def assignRolesEffect_def
      sendAssignRolesOnce_def scheduleRetry_def clearAssignRolesRetryTimer_def step_def
      retryTimeout_def handleIncomingMessage_def otherRole_def onPeerFailed_def
      onPeerConnected_def Let_def jsPlus_exact)

end
